theory Spec2Isabelle
  imports Main "HOL-Library.Word"
begin

unbundle bit_operations_syntax

section \<open>The Photonicat PMU protocol engine (drivers/mfd/photonicat-pmu.c)\<close>

text \<open>
  The driver exchanges framed messages with the power management unit over a serial
  line. This theory embeds the frame encoder \<open>pcat_pmu_raw_write\<close>, the request engine
  \<open>pcat_pmu_execute\<close> with its callers, and the receive path \<open>pcat_pmu_receive_buf\<close>,
  \<open>pcat_process_data\<close>, \<open>pcat_process_reply\<close> as functions on an explicit driver state,
  and proves the properties of the frame format, of the correlation of replies and of
  the reassembly buffer.
\<close>

subsection \<open>Machine integers and constants\<close>

type_synonym u8 = "8 word"
type_synonym u16 = "16 word"
type_synonym u32 = "32 word"

definition PCAT_ADDR_CPU :: u8 where "PCAT_ADDR_CPU = 0x01"
definition PCAT_ADDR_PMU :: u8 where "PCAT_ADDR_PMU = 0x81"
definition PCAT_ADDR_CPU_ALL :: u8 where "PCAT_ADDR_CPU_ALL = 0x80"
definition PCAT_ADDR_PMU_ALL :: u8 where "PCAT_ADDR_PMU_ALL = 0xFE"
definition PCAT_ADDR_ALL :: u8 where "PCAT_ADDR_ALL = 0xFF"

definition PCAT_MAGIC_HEAD :: u8 where "PCAT_MAGIC_HEAD = 0xA5"
definition PCAT_MAGIC_END :: u8 where "PCAT_MAGIC_END = 0x5A"

definition U16_MAX :: nat where "U16_MAX = 65535"

text \<open>Sizes are \<open>size_t\<close> values of 64 bits; their subtraction wraps around.\<close>

definition SIZE_MAX :: nat where "SIZE_MAX = 2 ^ 64 - 1"

definition size_t_sub :: "nat \<Rightarrow> nat \<Rightarrow> nat" where
  "size_t_sub a b = (a + (SIZE_MAX + 1) - b) mod (SIZE_MAX + 1)"

text \<open>The error numbers of the kernel's errno headers and the notifier's "don't care".\<close>

definition EAGAIN :: int where "EAGAIN = 11"
definition EBADMSG :: int where "EBADMSG = 74"
definition ETIMEDOUT :: int where "ETIMEDOUT = 110"
definition NOTIFY_DONE :: int where "NOTIFY_DONE = 0"

subsection \<open>The wire structures (include/linux/mfd/photonicat-pmu.h)\<close>

text \<open>
  \<open>struct pcat_data_head\<close> and \<open>struct pcat_data_foot\<close> are packed: nine and four bytes.
  The fields \<open>frame_id\<close>, \<open>length\<close> and \<open>crc16\<close> clash with other names of this theory
  and carry a suffix.
\<close>

record pcat_data_head =
  magic_head :: u8
  source :: u8
  dest :: u8
  frame_id_h :: u16
  length_h :: u16
  command :: u16

record pcat_data_foot =
  need_ack :: u8
  crc16_f :: u16
  magic_end :: u8

definition sizeof_head :: nat where "sizeof_head = 9"
definition sizeof_foot :: nat where "sizeof_foot = 4"

text \<open>
  \<open>struct pcat_data\<close>: the view of a received frame handed to the reply matcher and to
  the notifier chain. The pointer \<open>data\<close> and the count \<open>size\<close> are one byte list.
\<close>

record pcat_data =
  head :: pcat_data_head
  foot :: pcat_data_foot
  data :: "u8 list"

text \<open>
  The driver writes the structures as they lie in memory and reads received bytes
  through pointer casts. The 16-bit fields are stored low byte first (the driver runs
  on little-endian machines).
\<close>

definition le16 :: "u16 \<Rightarrow> u8 list" where
  "le16 w = [ucast w, ucast (drop_bit 8 w)]"

definition get_le16 :: "u8 \<Rightarrow> u8 \<Rightarrow> u16" where
  "get_le16 lo hi = ucast lo OR push_bit 8 (ucast hi)"

definition head_bytes :: "pcat_data_head \<Rightarrow> u8 list" where
  "head_bytes h = [magic_head h, source h, dest h] @ le16 (frame_id_h h)
                    @ le16 (length_h h) @ le16 (command h)"

definition foot_bytes :: "pcat_data_foot \<Rightarrow> u8 list" where
  "foot_bytes f = [need_ack f] @ le16 (crc16_f f) @ [magic_end f]"

text \<open>The casts \<open>(struct pcat_data_head *)data\<close> and \<open>(struct pcat_data_foot *)(data + ...)\<close>;
  the callers have checked that enough bytes are there.\<close>

definition head_of :: "u8 list \<Rightarrow> pcat_data_head" where
  "head_of bs = \<lparr> magic_head = bs ! 0, source = bs ! 1, dest = bs ! 2,
                  frame_id_h = get_le16 (bs ! 3) (bs ! 4),
                  length_h = get_le16 (bs ! 5) (bs ! 6),
                  command = get_le16 (bs ! 7) (bs ! 8) \<rparr>"

definition foot_of :: "u8 list \<Rightarrow> pcat_data_foot" where
  "foot_of bs = \<lparr> need_ack = bs ! 0, crc16_f = get_le16 (bs ! 1) (bs ! 2),
                  magic_end = bs ! 3 \<rparr>"

subsection \<open>The checksum\<close>

text \<open>Modelled from the spec: \<open>crc16_byte\<close> of \<open>linux/crc16.h\<close> is not among the sources.
  The spec describes a CRC16 driven by a polynomial table; one step shifts the
  checksum by a byte and folds in the table entry selected by its low byte and the
  data byte. The table is a parameter.\<close>

definition crc16_byte :: "(u8 \<Rightarrow> u16) \<Rightarrow> u16 \<Rightarrow> u8 \<Rightarrow> u16" where
  "crc16_byte tbl crc d = drop_bit 8 crc XOR tbl (ucast crc XOR d)"

text \<open>Modelled from the spec: \<open>crc16\<close> of \<open>linux/crc16.h\<close> (lib/crc16.c) is not among the
  sources. The spec has the checksum computed incrementally, the value after one
  buffer being the start value for the next: the step is folded over the bytes.\<close>

definition crc16 :: "(u8 \<Rightarrow> u16) \<Rightarrow> u16 \<Rightarrow> u8 list \<Rightarrow> u16" where
  "crc16 tbl crc buf = foldl (crc16_byte tbl) crc buf"

text \<open>
  An instance of the table for the places where a property is evaluated on concrete
  bytes: the table of the reflected polynomial \<open>0xA001\<close>. No theorem below depends on
  the choice of the table.
\<close>

definition crc16_table_step :: "u16 \<Rightarrow> u16" where
  "crc16_table_step c = (if bit c 0 then drop_bit 1 c XOR 0xA001 else drop_bit 1 c)"

definition crc16_table :: "u8 \<Rightarrow> u16" where
  "crc16_table i = (crc16_table_step ^^ 8) (ucast i)"

subsection \<open>The driver state\<close>

text \<open>
  \<open>struct pcat_request\<close> with its two anonymous parts. A payload pointer with its size
  is a byte list; the reply payload is \<open>None\<close> while the pointer is \<open>NULL\<close>.
  \<open>received\<close> is the \<open>done\<close> count of the completion.
\<close>

record pcat_request_request =
  cmd :: u16
  want :: u16
  data_q :: "u8 list"

record pcat_request_reply =
  head_r :: pcat_data_head
  foot_r :: pcat_data_foot
  data_r :: "u8 list option"
  size_r :: nat

record pcat_request =
  frame_id :: u16
  received :: nat
  request :: pcat_request_request
  reply :: pcat_request_reply

text \<open>
  What the driver does that an observer can see, in order: a call of
  \<open>pcat_pmu_raw_write\<close> with its arguments and result, a call of the notifier chain,
  and the result of a wait for the completion (\<open>True\<close>: completed in time).
  The list of these events is a ghost field of the state; no function reads it.
\<close>

datatype event =
  Ev_write u16 u32 bool "u8 list" int
  | Ev_notify u16 pcat_data
  | Ev_wait bool

text \<open>
  \<open>struct pcat_pmu\<close>: the frame counter (an \<open>atomic_t\<close>), the reassembly buffer of 8192
  bytes with the number of bytes in use, and the pointer to the pending request,
  an address of the request store or \<open>None\<close> for \<open>NULL\<close>.
\<close>

record pcat_pmu =
  frame :: u32
  buffer :: "u8 list"
  length_b :: nat
  reply_p :: "nat option"

text \<open>
  The state adds what lies behind the pointers of the structure: the serial device
  (the buffers it has accepted, in order, and the results scripted for the coming
  writes), the requests of the callers, which \<open>reply_p\<close> points into, and the events.
\<close>

record state = pcat_pmu +
  tx :: "u8 list list"
  faults :: "int list"
  mem :: "nat \<Rightarrow> pcat_request"
  trace :: "event list"

text \<open>
  What the driver's surroundings decide: the checksum table, whether an allocation of
  a given size succeeds, the value the notifier chain returns for a frame, and the
  byte chunks the serial line delivers while \<open>pcat_pmu_execute\<close> is in its round
  \<open>n\<close>: \<open>rx_wait\<close> during the wait for the completion, \<open>rx_late\<close> after a wait that
  has timed out and before the next step of the loop.
\<close>

record env =
  crc_tbl :: "u8 \<Rightarrow> u16"
  kzalloc_ok :: "nat \<Rightarrow> bool"
  notifier :: "u16 \<Rightarrow> pcat_data \<Rightarrow> int"
  rx_wait :: "nat \<Rightarrow> u8 list list"
  rx_late :: "nat \<Rightarrow> u8 list list"

subsection \<open>Writing a frame\<close>

text \<open>Modelled from the spec: \<open>serdev_device_write_buf\<close> is the byte transport, an external
  collaborator providing \<open>write(bytes)\<close> whose failure is a TransportError. A scripted
  negative result is returned and nothing is written; otherwise the device takes the
  whole buffer and returns its length.
\<close>

definition serdev_device_write_buf :: "u8 list \<Rightarrow> state \<Rightarrow> int \<times> state" where
  "serdev_device_write_buf buf s =
     (case faults s of
        [] \<Rightarrow> (int (length buf), s\<lparr>tx := tx s @ [buf]\<rparr>)
      | e # es \<Rightarrow>
          if e < 0 then (e, s\<lparr>faults := es\<rparr>)
          else (int (length buf), s\<lparr>tx := tx s @ [buf], faults := es\<rparr>))"

text \<open>The head that \<open>pcat_pmu_raw_write\<close> fills in; the assignments to \<open>head.length\<close> and
  \<open>head.command\<close> truncate to 16 bits.\<close>

definition raw_write_head :: "u16 \<Rightarrow> u32 \<Rightarrow> nat \<Rightarrow> pcat_data_head" where
  "raw_write_head fid c len =
     \<lparr> magic_head = PCAT_MAGIC_HEAD, source = PCAT_ADDR_CPU, dest = PCAT_ADDR_PMU,
       frame_id_h = fid, length_h = of_nat (len + sizeof_foot - 1), command = ucast c \<rparr>"

text \<open>The foot: the checksum runs over the head without its first byte, the payload, and
  the first byte of the foot.\<close>

definition raw_write_foot :: "(u8 \<Rightarrow> u16) \<Rightarrow> pcat_data_head \<Rightarrow> bool \<Rightarrow> u8 list \<Rightarrow> pcat_data_foot" where
  "raw_write_foot tbl h ack d =
     (let f0 = \<lparr> need_ack = (if ack then 1 else 0), crc16_f = 0, magic_end = PCAT_MAGIC_END \<rparr>;
          c1 = crc16 tbl 0xFFFF (drop 1 (head_bytes h));
          c2 = crc16 tbl c1 d;
          c3 = crc16 tbl c2 (take 1 (foot_bytes (f0\<lparr>crc16_f := c2\<rparr>)))
      in f0\<lparr>crc16_f := c3\<rparr>)"

definition pcat_pmu_raw_write ::
  "env \<Rightarrow> u16 \<Rightarrow> u32 \<Rightarrow> bool \<Rightarrow> u8 list \<Rightarrow> state \<Rightarrow> int \<times> state" where
  "pcat_pmu_raw_write e fid c ack d s =
     (let h = raw_write_head fid c (length d);
          (ret, s') =
            (let (ret1, s1) = serdev_device_write_buf (head_bytes h) s in
             if ret1 < 0 then (ret1, s1)
             else let (ret2, s2) = serdev_device_write_buf d s1 in
               if ret2 < 0 then (ret2, s2)
               else serdev_device_write_buf (foot_bytes (raw_write_foot (crc_tbl e) h ack d)) s2)
      in (ret, s'\<lparr>trace := trace s' @ [Ev_write fid c ack d ret]\<rparr>))"

text \<open>\<open>atomic_inc_return\<close> on the frame counter.\<close>

definition atomic_inc_return :: "state \<Rightarrow> u32 \<times> state" where
  "atomic_inc_return s = (frame s + 1, s\<lparr>frame := frame s + 1\<rparr>)"

definition pcat_pmu_send :: "env \<Rightarrow> u32 \<Rightarrow> u8 list \<Rightarrow> state \<Rightarrow> int \<times> state" where
  "pcat_pmu_send e c d s =
     (let (v, s1) = atomic_inc_return s
      in pcat_pmu_raw_write e (ucast v) c False d s1)"

subsection \<open>Checking a received buffer\<close>

text \<open>
  The first part of \<open>pcat_process_data\<close>, up to the comparison of the checksums.
  \<open>Inl r\<close> is \<open>return r\<close>: \<open>-EAGAIN\<close> asks for more bytes, \<open>-EBADMSG\<close> rejects the
  buffer, \<open>0\<close> drops a frame of a foreign source or destination. \<open>Inr\<close> is the frame
  that the rest of the function dispatches.
\<close>

definition pcat_process_data_check :: "(u8 \<Rightarrow> u16) \<Rightarrow> u8 list \<Rightarrow> int + pcat_data" where
  "pcat_process_data_check tbl bs =
     (let len = length bs in
      if len < sizeof_head then Inl (- EAGAIN)
      else let h = head_of bs in
        if magic_head h \<noteq> PCAT_MAGIC_HEAD then Inl (- EBADMSG)
        else if source h \<noteq> PCAT_ADDR_PMU then Inl 0
        else if dest h \<noteq> PCAT_ADDR_CPU \<and> dest h \<noteq> PCAT_ADDR_CPU_ALL \<and> dest h \<noteq> PCAT_ADDR_ALL
          then Inl 0
        else if unat (length_h h) < sizeof_foot - 1 \<or> unat (length_h h) \<ge> U16_MAX - 4
          then Inl (- EBADMSG)
        else let data_size = sizeof_head + unat (length_h h) + 1 in
          if data_size > len then Inl (- EAGAIN)
          else let size = unat (length_h h) + 1 - sizeof_foot;
                   f = foot_of (drop (size + sizeof_head) bs) in
            if magic_end f \<noteq> PCAT_MAGIC_END then Inl (- EBADMSG)
            else let crc16_calc = crc16 tbl 0xFFFF (take (unat (length_h h) + 6) (drop 1 bs)) in
              if crc16_f f \<noteq> crc16_calc then Inl (- EBADMSG)
              else Inr \<lparr> head = h, foot = f, data = take size (drop sizeof_head bs) \<rparr>)"

subsection \<open>Matching a reply\<close>

text \<open>Modelled from the spec: \<open>completion_done\<close> of \<open>linux/completion.h\<close>. The completion
  is a one-shot signal, held as the count \<open>received\<close>, which \<open>init_completion\<close> sets
  to 0; it is done when the count is not 0.\<close>

definition completion_done :: "nat \<Rightarrow> bool" where
  "completion_done n = (n \<noteq> 0)"

text \<open>Modelled from the spec: \<open>complete\<close> of \<open>linux/completion.h\<close> signals the completion:
  it raises the count.\<close>

definition complete :: "nat \<Rightarrow> nat" where
  "complete n = Suc n"

text \<open>Modelled from the spec: \<open>devm_kzalloc\<close> is the kernel's allocator; the environment
  decides whether it succeeds, and the memory it returns is zeroed.
\<close>

definition devm_kzalloc :: "env \<Rightarrow> nat \<Rightarrow> u8 list option" where
  "devm_kzalloc e n = (if kzalloc_ok e n then Some (replicate n 0) else None)"

text \<open>\<open>memcpy (dst + off, src, length src)\<close> on a buffer held as a list.\<close>

definition memcpy :: "u8 list \<Rightarrow> nat \<Rightarrow> u8 list \<Rightarrow> u8 list" where
  "memcpy dst off src = take off dst @ src @ drop (off + length src) dst"

definition pcat_process_reply :: "env \<Rightarrow> pcat_data \<Rightarrow> state \<Rightarrow> bool \<times> state" where
  "pcat_process_reply e p s =
     (case reply_p s of
        None \<Rightarrow> (False, s)
      | Some a \<Rightarrow>
          let r = mem s a in
          if frame_id r \<noteq> frame_id_h (head p) then (False, s)
          else
            let q = request r;
                q' = (if want q = 0 then q\<lparr>want := cmd q + 1\<rparr> else q);
                r1 = r\<lparr>request := q'\<rparr>;
                s1 = s\<lparr>mem := (mem s)(a := r1)\<rparr>
            in
              if want q' \<noteq> command (head p) then (False, s1)
              else if completion_done (received r1) then (False, s1)
              else
                let y0 = (reply r1)\<lparr>head_r := head p, foot_r := foot p\<rparr>;
                    y = (if data p \<noteq> [] then
                           (case devm_kzalloc e (length (data p) + 1) of
                              None \<Rightarrow> y0\<lparr>data_r := None\<rparr>
                            | Some b \<Rightarrow> y0\<lparr>data_r := Some (memcpy b 0 (data p)),
                                           size_r := length (data p)\<rparr>)
                         else y0);
                    r2 = r1\<lparr>reply := y, received := complete (received r1)\<rparr>
                in (True, s1\<lparr>mem := (mem s)(a := r2), reply_p := None\<rparr>))"

subsection \<open>Dispatching a received buffer\<close>

text \<open>Modelled from the spec: \<open>blocking_notifier_call_chain\<close> offers the frame to the
  subscribers, keyed by its command, and returns what they answer; the environment
  gives that answer. The subscribers of this driver change no state of the engine.
\<close>

definition blocking_notifier_call_chain :: "env \<Rightarrow> u16 \<Rightarrow> pcat_data \<Rightarrow> state \<Rightarrow> int \<times> state" where
  "blocking_notifier_call_chain e c p s = (notifier e c p, s\<lparr>trace := trace s @ [Ev_notify c p]\<rparr>)"

definition pcat_process_data :: "env \<Rightarrow> u8 list \<Rightarrow> state \<Rightarrow> int \<times> state" where
  "pcat_process_data e bs s =
     (case pcat_process_data_check (crc_tbl e) bs of
        Inl r \<Rightarrow> (r, s)
      | Inr fr \<Rightarrow>
          let (processed, s1) = pcat_process_reply e fr s in
          if processed then (0, s1)
          else
            let (ret, s2) = blocking_notifier_call_chain e (command (head fr)) fr s1 in
            if ret = NOTIFY_DONE \<and> need_ack (foot fr) \<noteq> 0
            then (0, snd (pcat_pmu_raw_write e (frame_id_h (head fr))
                            (ucast (command (head fr)) + 1) False [] s2))
            else (0, s2))"

subsection \<open>The reassembly buffer\<close>

definition sizeof_buffer :: nat where "sizeof_buffer = 8192"

text \<open>
  \<open>pcat_pmu_receive_buf\<close>: the pointers \<open>pmu\<close> and \<open>buf\<close> are never \<open>NULL\<close> here.
  The subtraction is one of \<open>size_t\<close>.
\<close>

definition pcat_pmu_receive_buf :: "env \<Rightarrow> u8 list \<Rightarrow> state \<Rightarrow> nat \<times> state" where
  "pcat_pmu_receive_buf e buf s =
     (let size = length buf;
          new_len = length_b s + size
      in
        if size = 0 then (0, s)
        else
          let (new_len, processed) =
                (if new_len > sizeof_buffer
                 then (sizeof_buffer, size_t_sub sizeof_buffer (length_b s))
                 else (new_len, size));
              s1 = s\<lparr>buffer := memcpy (buffer s) (length_b s) (take processed buf),
                     length_b := new_len\<rparr>;
              (ret, s2) = pcat_process_data e (take (length_b s1) (buffer s1)) s1;
              s3 = (if ret \<noteq> - EAGAIN then s2\<lparr>length_b := 0\<rparr> else s2)
          in (processed, s3))"

text \<open>The serial core calls \<open>pcat_pmu_receive_buf\<close> once for each chunk it delivers.\<close>

definition feed :: "env \<Rightarrow> u8 list list \<Rightarrow> state \<Rightarrow> state" where
  "feed e chunks s = foldl (\<lambda>t c. snd (pcat_pmu_receive_buf e c t)) s chunks"

subsection \<open>The request engine\<close>

text \<open>Modelled from the spec: \<open>wait_for_completion_timeout\<close> suspends the caller until the
  completion signal or the timeout. The receive path runs meanwhile, on the chunks
  that the environment delivers during this wait; then the wait returns whether the
  request at address \<open>a\<close> has been completed.
\<close>

definition wait_for_completion_timeout :: "env \<Rightarrow> nat \<Rightarrow> nat \<Rightarrow> state \<Rightarrow> bool \<times> state" where
  "wait_for_completion_timeout e a n s =
     (let s1 = feed e (rx_wait e n) s;
          r = mem s1 a
      in
        if completion_done (received r)
        then (True, s1\<lparr>mem := (mem s1)(a := r\<lparr>received := received r - 1\<rparr>),
                       trace := trace s1 @ [Ev_wait True]\<rparr>)
        else (False, s1\<lparr>trace := trace s1 @ [Ev_wait False]\<rparr>))"

text \<open>
  The loop of \<open>pcat_pmu_execute\<close>. \<open>Inl ret\<close> is \<open>goto fail\<close> with that result,
  \<open>Inr ()\<close> is \<open>break\<close>. After a wait has timed out the receive path may still run
  before the loop goes on: these are the late chunks of the round.
\<close>

function pcat_pmu_execute_loop :: "env \<Rightarrow> nat \<Rightarrow> nat \<Rightarrow> state \<Rightarrow> (int + unit) \<times> state" where
  "pcat_pmu_execute_loop e a retries s =
     (let r = mem s a;
          w = pcat_pmu_raw_write e (frame_id r) (ucast (cmd (request r))) True
                (data_q (request r)) s
      in
        if fst w < 0 then (Inl (fst w), snd w)
        else
          let v = wait_for_completion_timeout e a retries (snd w) in
          if \<not> fst v then
            (let s3 = feed e (rx_late e retries) (snd v) in
             if retries < 3 then pcat_pmu_execute_loop e a (retries + 1) s3
             else (Inl (- ETIMEDOUT), s3))
          else (Inr (), snd v))"
  by pat_completeness auto
termination
  by (relation "measure (\<lambda>(e, a, retries, s). 3 - retries)") auto

definition zero_head :: pcat_data_head where
  "zero_head = \<lparr> magic_head = 0, source = 0, dest = 0, frame_id_h = 0, length_h = 0,
                 command = 0 \<rparr>"

definition zero_foot :: pcat_data_foot where
  "zero_foot = \<lparr> need_ack = 0, crc16_f = 0, magic_end = 0 \<rparr>"

text \<open>The reply after \<open>memset(reply, 0, sizeof(request->reply))\<close>.\<close>

definition zero_reply :: pcat_request_reply where
  "zero_reply = \<lparr> head_r = zero_head, foot_r = zero_foot, data_r = None, size_r = 0 \<rparr>"

text \<open>
  \<open>pcat_pmu_execute\<close> on the request at address \<open>a\<close>. Before the loop it resets the
  completion and the reply, assigns a frame id where the request has none, installs
  the request as the pending one and defaults the expected reply command.
\<close>

definition pcat_pmu_execute_begin :: "nat \<Rightarrow> state \<Rightarrow> state" where
  "pcat_pmu_execute_begin a s =
     (let r1 = (mem s a)\<lparr>received := 0, reply := zero_reply\<rparr>;
          s1 = s\<lparr>mem := (mem s)(a := r1)\<rparr>;
          (r2, s2) = (if frame_id r1 = 0
                      then let (v, t) = atomic_inc_return s1 in (r1\<lparr>frame_id := ucast v\<rparr>, t)
                      else (r1, s1));
          s3 = s2\<lparr>mem := (mem s2)(a := r2), reply_p := Some a\<rparr>;
          q = request r2;
          r3 = (if want q = 0 then r2\<lparr>request := q\<lparr>want := cmd q + 1\<rparr>\<rparr> else r2)
      in s3\<lparr>mem := (mem s3)(a := r3)\<rparr>)"

definition pcat_pmu_execute :: "env \<Rightarrow> nat \<Rightarrow> state \<Rightarrow> int \<times> state" where
  "pcat_pmu_execute e a s =
     (case pcat_pmu_execute_loop e a 0 (pcat_pmu_execute_begin a s) of
        (Inl ret, s5) \<Rightarrow> (ret, s5\<lparr>reply_p := None\<rparr>)
      | (Inr u, s5) \<Rightarrow> (0, s5))"

text \<open>
  The request that \<open>pcat_pmu_write_data\<close> and \<open>pcat_pmu_read_string\<close> build on their
  stack: command and payload are set, every other field is zero.
\<close>

definition stack_request :: "u32 \<Rightarrow> u8 list \<Rightarrow> pcat_request" where
  "stack_request c d =
     \<lparr> frame_id = 0, received = 0,
       request = \<lparr> cmd = ucast c, want = 0, data_q = d \<rparr>,
       reply = zero_reply \<rparr>"

definition pcat_pmu_write_data :: "env \<Rightarrow> nat \<Rightarrow> u32 \<Rightarrow> u8 list \<Rightarrow> state \<Rightarrow> int \<times> state" where
  "pcat_pmu_write_data e a c d s =
     pcat_pmu_execute e a (s\<lparr>mem := (mem s)(a := stack_request c d)\<rparr>)"

definition pcat_pmu_write_u8 :: "env \<Rightarrow> nat \<Rightarrow> u32 \<Rightarrow> u8 \<Rightarrow> state \<Rightarrow> int \<times> state" where
  "pcat_pmu_write_u8 e a c v s = pcat_pmu_write_data e a c [v] s"


text \<open>The state after \<open>pcat_pmu_probe\<close> has allocated the zeroed structure, before any
  request, over a serial device that accepts every write.\<close>

definition zero_request :: pcat_request where
  "zero_request = \<lparr> frame_id = 0, received = 0,
                    request = \<lparr> cmd = 0, want = 0, data_q = [] \<rparr>, reply = zero_reply \<rparr>"

definition pmu_init :: state where
  "pmu_init = \<lparr> frame = 0, buffer = replicate 8192 0, length_b = 0, reply_p = None,
                tx = [], faults = [], mem = (\<lambda>a. zero_request), trace = [] \<rparr>"

text \<open>An environment in which nothing arrives, allocations succeed and no subscriber
  claims a frame.\<close>

definition env0 :: env where
  "env0 = \<lparr> crc_tbl = crc16_table, kzalloc_ok = (\<lambda>n. True),
            notifier = (\<lambda>c p. NOTIFY_DONE), rx_wait = (\<lambda>n. []), rx_late = (\<lambda>n. []) \<rparr>"

subsection \<open>Notions used in the statements\<close>

text \<open>The reply command a request expects: \<open>want\<close>, or \<open>cmd + 1\<close> where \<open>want\<close> is 0, which
  is the value of \<open>req->want\<close> after the defaulting statement of \<open>pcat_pmu_execute\<close> and
  \<open>pcat_process_reply\<close>.\<close>

definition expected_reply :: "pcat_request_request \<Rightarrow> u16" where
  "expected_reply q = (if want q = 0 then cmd q + 1 else want q)"

text \<open>
  A frame as the PMU sends it to the address \<open>dst\<close>: the layout that
  \<open>pcat_pmu_raw_write\<close> produces, with the PMU as source. \<open>pmu_data\<close> is the view
  of it that the decoder builds.
\<close>

definition pmu_head :: "u8 \<Rightarrow> u16 \<Rightarrow> u32 \<Rightarrow> nat \<Rightarrow> pcat_data_head" where
  "pmu_head dst fid c len = (raw_write_head fid c len)\<lparr>source := PCAT_ADDR_PMU, dest := dst\<rparr>"

definition pmu_data :: "(u8 \<Rightarrow> u16) \<Rightarrow> u8 \<Rightarrow> u16 \<Rightarrow> u32 \<Rightarrow> bool \<Rightarrow> u8 list \<Rightarrow> pcat_data" where
  "pmu_data tbl dst fid c ack d =
     \<lparr> head = pmu_head dst fid c (length d),
       foot = raw_write_foot tbl (pmu_head dst fid c (length d)) ack d,
       data = d \<rparr>"

definition pmu_frame :: "(u8 \<Rightarrow> u16) \<Rightarrow> u8 \<Rightarrow> u16 \<Rightarrow> u32 \<Rightarrow> bool \<Rightarrow> u8 list \<Rightarrow> u8 list" where
  "pmu_frame tbl dst fid c ack d =
     head_bytes (head (pmu_data tbl dst fid c ack d)) @ d
       @ foot_bytes (foot (pmu_data tbl dst fid c ack d))"

text \<open>The reassembly buffer is well formed: the array has its 8192 bytes and the count
  of bytes in use does not exceed them.\<close>

definition buffer_ok :: "state \<Rightarrow> bool" where
  "buffer_ok s = (length (buffer s) = sizeof_buffer \<and> length_b s \<le> sizeof_buffer)"

text \<open>The bytes in use after a chunk has been appended: those in use before, then as
  many bytes from the front of the chunk as fit.\<close>

definition accumulated :: "state \<Rightarrow> u8 list \<Rightarrow> u8 list" where
  "accumulated s buf = take (length_b s) (buffer s) @ take (sizeof_buffer - length_b s) buf"

text \<open>
  A buffer that holds a full head fails a structural check: the head magic is wrong,
  or the length field is out of range, or the frame is there in full and its end magic
  or its checksum is wrong.
\<close>

definition malformed :: "(u8 \<Rightarrow> u16) \<Rightarrow> u8 list \<Rightarrow> bool" where
  "malformed tbl bs =
     (sizeof_head \<le> length bs \<and>
      (let h = head_of bs; n = unat (length_h h);
           f = foot_of (drop (n + 1 - sizeof_foot + sizeof_head) bs)
       in magic_head h \<noteq> PCAT_MAGIC_HEAD
          \<or> n < sizeof_foot - 1 \<or> U16_MAX - 4 \<le> n
          \<or> (sizeof_head + n + 1 \<le> length bs
              \<and> (magic_end f \<noteq> PCAT_MAGIC_END
                  \<or> crc16_f f \<noteq> crc16 tbl 0xFFFF (take (n + 6) (drop 1 bs))))))"

text \<open>The state while the request of the probe that sets the watchdog timeouts
  (command \<open>0x13\<close>, frame id 1, at address 0) is pending.\<close>

definition pmu_pending :: state where
  "pmu_pending =
     pmu_init\<lparr> frame := 1, reply_p := Some 0,
       mem := (\<lambda>a. zero_request)
         (0 := \<lparr> frame_id = 1, received = 0,
                 request = \<lparr> cmd = 0x13, want = 0x14, data_q = [60, 60, 0] \<rparr>,
                 reply = zero_reply \<rparr>) \<rparr>"


text \<open>The events that a run from state \<open>s\<close> to state \<open>t\<close> has added.\<close>

definition new_events :: "state \<Rightarrow> state \<Rightarrow> event list" where
  "new_events s t = drop (length (trace s)) (trace t)"










text \<open>
  The first 8191 bytes of a frame of the PMU to the host (frame id 1, command \<open>0x07\<close>)
  whose head announces 65527 payload bytes, the longest payload that the length check
  admits: the head with the length field \<open>0xFFFA\<close>, then zero bytes.
\<close>

definition long_report :: "u8 list" where
  "long_report = head_bytes (pmu_head PCAT_ADDR_CPU 1 0x07 65527) @ replicate 8182 0"

text \<open>The state once these bytes have been received in the initial state: the frame is
  incomplete, so they stay in the reassembly buffer, which has one free byte left.\<close>

definition pmu_nearly_full :: state where
  "pmu_nearly_full = snd (pcat_pmu_receive_buf env0 long_report pmu_init)"

section \<open>Properties\<close>

subsection \<open>The frame format\<close>

lemma get_le16_le16: "get_le16 (ucast w) (ucast (drop_bit 8 w)) = w"
  unfolding get_le16_def
  by (rule bit_word_eqI) (auto simp add: bit_simps)

lemma length_head_bytes: "length (head_bytes h) = 9"
  by (simp add: head_bytes_def le16_def)

lemma length_foot_bytes: "length (foot_bytes f) = 4"
  by (simp add: foot_bytes_def le16_def)

lemma head_of_head_bytes: "head_of (head_bytes h @ rest) = h"
  by (simp add: head_of_def head_bytes_def le16_def get_le16_le16)

lemma foot_of_foot_bytes: "foot_of (foot_bytes f @ rest) = f"
  by (simp add: foot_of_def foot_bytes_def le16_def get_le16_le16)

lemma crc16_append: "crc16 tbl c (xs @ ys) = crc16 tbl (crc16 tbl c xs) ys"
  by (simp add: crc16_def)

lemma unat_length_h:
  assumes "n < 65533"
  shows "unat (of_nat (n + sizeof_foot - 1) :: u16) = n + 3"
proof -
  have eq: "n + sizeof_foot - 1 = n + 3"
    by (simp add: sizeof_foot_def)
  have "(n + 3) mod 2 ^ LENGTH(16) = n + 3"
    using assms by simp
  then show ?thesis
    by (simp only: eq unat_of_nat)
qed

lemma unat_raw_write_length:
  "n < 65533 \<Longrightarrow> unat (length_h (raw_write_head fid c n)) = n + 3"
  by (simp only: raw_write_head_def pcat_data_head.simps unat_length_h)

lemma raw_write_foot_eq:
  "raw_write_foot tbl h ack d =
     \<lparr> need_ack = (if ack then 1 else 0),
       crc16_f = crc16 tbl 0xFFFF (drop 1 (head_bytes h) @ d @ [if ack then 1 else 0]),
       magic_end = PCAT_MAGIC_END \<rparr>"
  by (simp add: raw_write_foot_def Let_def foot_bytes_def crc16_append)

lemma raw_write_ok:
  assumes "faults s = []"
  shows "pcat_pmu_raw_write e fid c ack d s =
     (4, s\<lparr> tx := tx s @ [head_bytes (raw_write_head fid c (length d)), d,
               foot_bytes (raw_write_foot (crc_tbl e) (raw_write_head fid c (length d)) ack d)],
            trace := trace s @ [Ev_write fid c ack d 4] \<rparr>)"
  using assms
  by (simp add: pcat_pmu_raw_write_def serdev_device_write_buf_def Let_def length_foot_bytes)

lemma check_frame:
  assumes m: "magic_head h = PCAT_MAGIC_HEAD"
    and s: "source h = PCAT_ADDR_PMU"
    and d: "dest h = PCAT_ADDR_CPU \<or> dest h = PCAT_ADDR_CPU_ALL \<or> dest h = PCAT_ADDR_ALL"
    and l: "unat (length_h h) = length d + 3"
    and n: "length d < 65528"
    and e: "magic_end f = PCAT_MAGIC_END"
    and c: "crc16_f f = crc16 tbl 0xFFFF (drop 1 (head_bytes h) @ d @ [need_ack f])"
  shows "pcat_process_data_check tbl (head_bytes h @ d @ foot_bytes f @ rest)
           = Inr \<lparr> head = h, foot = f, data = d \<rparr>"
proof -
  define bs where "bs = head_bytes h @ d @ foot_bytes f @ rest"
  have hd: "head_of bs = h"
    unfolding bs_def by (rule head_of_head_bytes)
  have ft: "foot_of (drop (length d + 9) bs) = f"
    unfolding bs_def by (simp add: length_head_bytes foot_of_foot_bytes)
  have bd: "take (length d) (drop 9 bs) = d"
    unfolding bs_def by (simp add: length_head_bytes)
  have cr: "take (9 + length d) (drop (Suc 0) bs) = drop 1 (head_bytes h) @ d @ [need_ack f]"
    unfolding bs_def by (simp add: length_head_bytes foot_bytes_def)
  have len: "length bs = length d + 13 + length rest"
    unfolding bs_def by (simp add: length_head_bytes length_foot_bytes)
  have "pcat_process_data_check tbl bs = Inr \<lparr> head = h, foot = f, data = d \<rparr>"
    unfolding pcat_process_data_check_def Let_def hd
    using m s d l n e c
    by (simp add: sizeof_head_def sizeof_foot_def U16_MAX_def ft bd cr len)
  then show ?thesis
    by (simp only: bs_def)
qed

lemma check_foreign_source:
  assumes "source h \<noteq> PCAT_ADDR_PMU" and "magic_head h = PCAT_MAGIC_HEAD"
  shows "pcat_process_data_check tbl (head_bytes h @ rest) = Inl 0"
  using assms
  by (simp add: pcat_process_data_check_def Let_def head_of_head_bytes length_head_bytes
      sizeof_head_def)

text \<open>
  C1, amended. Encoding command \<open>0x01\<close> (heartbeat) with an empty body and
  \<open>need_ack = false\<close> writes exactly the 13 bytes
  \<open>A5 01 81 id_lo id_hi 03 00 01 00 00 crc_lo crc_hi 5A\<close>, as the head of nine bytes, an
  empty body and the foot of four bytes: the length field at offset 5 is 3 for an
  empty body, the size of the foot less one. The decoder of the driver drops these
  bytes at its source check, because they carry the address of the host. The same
  frame sent by the PMU (source \<open>0x81\<close>, destination \<open>0x01\<close>) decodes to command
  \<open>0x01\<close>, an empty body and \<open>need_ack = 0\<close>.
\<close>

theorem heartbeat_frame:
  assumes "faults s = []"
  shows "(let crc = crc16 (crc_tbl e) 0xFFFF
                     [0x01, 0x81, ucast fid, ucast (drop_bit 8 fid), 3, 0, 1, 0, 0];
              bs = [0xA5, 0x01, 0x81, ucast fid, ucast (drop_bit 8 fid), 3, 0, 1, 0,
                    0, ucast crc, ucast (drop_bit 8 crc), 0x5A]
          in tx (snd (pcat_pmu_raw_write e fid 1 False [] s))
               = tx s @ [take 9 bs, [], drop 9 bs]
             \<and> pcat_process_data_check (crc_tbl e) bs = Inl 0)
       \<and> (let crc = crc16 (crc_tbl e) 0xFFFF
                     [0x81, 0x01, ucast fid, ucast (drop_bit 8 fid), 3, 0, 1, 0, 0]
          in pcat_process_data_check (crc_tbl e)
               [0xA5, 0x81, 0x01, ucast fid, ucast (drop_bit 8 fid), 3, 0, 1, 0,
                0, ucast crc, ucast (drop_bit 8 crc), 0x5A]
             = Inr \<lparr> head = \<lparr> magic_head = 0xA5, source = 0x81, dest = 0x01, frame_id_h = fid,
                               length_h = 3, command = 1 \<rparr>,
                      foot = \<lparr> need_ack = 0, crc16_f = crc, magic_end = 0x5A \<rparr>,
                      data = [] \<rparr>)"
proof -
  let ?h = "raw_write_head fid 1 0"
  let ?h' = "?h\<lparr>source := PCAT_ADDR_PMU, dest := PCAT_ADDR_CPU\<rparr>"
  have h: "?h = \<lparr> magic_head = 0xA5, source = 0x01, dest = 0x81, frame_id_h = fid,
                    length_h = 3, command = 1 \<rparr>"
    by (simp add: raw_write_head_def PCAT_MAGIC_HEAD_def PCAT_ADDR_CPU_def PCAT_ADDR_PMU_def
        sizeof_foot_def)
  have h': "?h' = \<lparr> magic_head = 0xA5, source = 0x81, dest = 0x01, frame_id_h = fid,
                    length_h = 3, command = 1 \<rparr>"
    by (simp add: raw_write_head_def PCAT_MAGIC_HEAD_def PCAT_ADDR_CPU_def PCAT_ADDR_PMU_def
        sizeof_foot_def)
  have hb: "head_bytes ?h = [0xA5, 0x01, 0x81, ucast fid, ucast (drop_bit 8 fid), 3, 0, 1, 0]"
    unfolding h by (simp add: head_bytes_def le16_def)
  have hb': "head_bytes ?h' = [0xA5, 0x81, 0x01, ucast fid, ucast (drop_bit 8 fid), 3, 0, 1, 0]"
    unfolding h' by (simp add: head_bytes_def le16_def)
  have a: "tx (snd (pcat_pmu_raw_write e fid 1 False [] s))
             = tx s @ [head_bytes ?h, [], foot_bytes (raw_write_foot (crc_tbl e) ?h False [])]"
    by (simp add: raw_write_ok [OF assms])
  have b: "pcat_process_data_check (crc_tbl e) (head_bytes ?h @ rest) = Inl 0" for rest
    by (rule check_foreign_source)
      (simp_all add: raw_write_head_def PCAT_ADDR_CPU_def PCAT_ADDR_PMU_def)
  have c: "pcat_process_data_check (crc_tbl e)
             (head_bytes ?h' @ [] @ foot_bytes (raw_write_foot (crc_tbl e) ?h' False []) @ [])
           = Inr \<lparr> head = ?h', foot = raw_write_foot (crc_tbl e) ?h' False [], data = [] \<rparr>"
    by (rule check_frame)
      (simp_all add: raw_write_head_def raw_write_foot_eq sizeof_foot_def)
  have c': "pcat_process_data_check (crc_tbl e)
             (head_bytes ?h' @ foot_bytes (raw_write_foot (crc_tbl e) ?h' False []))
           = Inr \<lparr> head = \<lparr> magic_head = 0xA5, source = 0x81, dest = 0x01, frame_id_h = fid,
                    length_h = 3, command = 1 \<rparr>, foot = raw_write_foot (crc_tbl e) ?h' False [], data = [] \<rparr>"
    using c unfolding h' by simp
  show ?thesis
    using a b c'
    by (simp add: Let_def hb hb' raw_write_foot_eq foot_bytes_def le16_def PCAT_MAGIC_END_def)
qed

text \<open>The hypothesis of C1 holds in the initial state, with frame id 7.\<close>

theorem heartbeat_frame_witness:
  "faults pmu_init = []
   \<and> (let crc = crc16 (crc_tbl env0) 0xFFFF [0x01, 0x81, 7, 0, 3, 0, 1, 0, 0]
      in tx (snd (pcat_pmu_raw_write env0 7 1 False [] pmu_init))
         = [[0xA5, 0x01, 0x81, 7, 0, 3, 0, 1, 0], [], [0, ucast crc, ucast (drop_bit 8 crc), 0x5A]])"
proof -
  have h: "faults pmu_init = []"
    by (simp add: pmu_init_def)
  have t: "tx pmu_init = []"
    by (simp add: pmu_init_def)
  show ?thesis
    using heartbeat_frame [OF h, of env0 7] h
    by (simp add: Let_def t)
qed

text \<open>C1 as stated fails: the length byte of the heartbeat frame is not 2.\<close>

theorem heartbeat_length_counterexample:
  "concat (tx (snd (pcat_pmu_raw_write env0 7 1 False [] pmu_init))) ! 5 \<noteq> 2"
  by (simp add: pmu_init_def pcat_pmu_raw_write_def serdev_device_write_buf_def
      raw_write_head_def head_bytes_def sizeof_foot_def le16_def Let_def foot_bytes_def)

text \<open>
  C2, amended. For every command and every body shorter than \<open>U16_MAX - 7\<close> bytes the
  encoder writes head, body and foot. The decoder drops this byte sequence at the
  source check, since its source is the host. With the source set to the PMU and the
  destination to the host or to a broadcast address that the host accepts, the same
  frame passes every check of the decoder (magic bytes, length bounds, checksum) and
  the decoded frame has the original command and body; the stored checksum equals the
  one recomputed over the bytes from offset 1 through the \<open>need_ack\<close> byte.
\<close>

theorem frame_roundtrip:
  assumes "faults s = []"
    and "length d < U16_MAX - 7"
    and "dst = PCAT_ADDR_CPU \<or> dst = PCAT_ADDR_CPU_ALL \<or> dst = PCAT_ADDR_ALL"
  shows "(let h = raw_write_head fid c (length d);
              f = raw_write_foot (crc_tbl e) h ack d;
              h' = h\<lparr>source := PCAT_ADDR_PMU, dest := dst\<rparr>;
              f' = raw_write_foot (crc_tbl e) h' ack d
          in tx (snd (pcat_pmu_raw_write e fid c ack d s)) = tx s @ [head_bytes h, d, foot_bytes f]
             \<and> pcat_process_data_check (crc_tbl e) (head_bytes h @ d @ foot_bytes f) = Inl 0
             \<and> pcat_process_data_check (crc_tbl e) (head_bytes h' @ d @ foot_bytes f')
                 = Inr \<lparr> head = h', foot = f', data = d \<rparr>
             \<and> command h' = ucast c
             \<and> crc16_f f' = crc16 (crc_tbl e) 0xFFFF
                               (take (unat (length_h h') + 6) (drop 1 (head_bytes h' @ d @ foot_bytes f'))))"
proof -
  define h where "h = raw_write_head fid c (length d)"
  define h' where "h' = h\<lparr>source := PCAT_ADDR_PMU, dest := dst\<rparr>"
  define f where "f = raw_write_foot (crc_tbl e) h ack d"
  define f' where "f' = raw_write_foot (crc_tbl e) h' ack d"
  have n: "length d < 65528"
    using assms(2) by (simp add: U16_MAX_def)
  have l: "unat (length_h h') = length d + 3"
    using n by (simp add: h'_def h_def unat_raw_write_length)
  have a: "tx (snd (pcat_pmu_raw_write e fid c ack d s)) = tx s @ [head_bytes h, d, foot_bytes f]"
    by (simp add: raw_write_ok [OF assms(1)] h_def f_def)
  have b: "pcat_process_data_check (crc_tbl e) (head_bytes h @ d @ foot_bytes f) = Inl 0"
    by (rule check_foreign_source)
      (simp_all add: h_def raw_write_head_def PCAT_ADDR_CPU_def PCAT_ADDR_PMU_def)
  have "pcat_process_data_check (crc_tbl e) (head_bytes h' @ d @ foot_bytes f' @ [])
          = Inr \<lparr> head = h', foot = f', data = d \<rparr>"
  proof (rule check_frame)
    show "magic_head h' = PCAT_MAGIC_HEAD"
      by (simp add: h'_def h_def raw_write_head_def)
    show "source h' = PCAT_ADDR_PMU"
      by (simp add: h'_def)
    show "dest h' = PCAT_ADDR_CPU \<or> dest h' = PCAT_ADDR_CPU_ALL \<or> dest h' = PCAT_ADDR_ALL"
      using assms(3) by (simp add: h'_def)
    show "unat (length_h h') = length d + 3"
      by (rule l)
    show "length d < 65528"
      by (rule n)
    show "magic_end f' = PCAT_MAGIC_END"
      by (simp add: f'_def raw_write_foot_eq)
    show "crc16_f f' = crc16 (crc_tbl e) 0xFFFF (drop 1 (head_bytes h') @ d @ [need_ack f'])"
      by (simp add: f'_def raw_write_foot_eq)
  qed
  then have c: "pcat_process_data_check (crc_tbl e) (head_bytes h' @ d @ foot_bytes f')
                  = Inr \<lparr> head = h', foot = f', data = d \<rparr>"
    by simp
  have k: "command h' = ucast c"
    by (simp add: h'_def h_def raw_write_head_def)
  have t: "take (unat (length_h h') + 6) (drop 1 (head_bytes h' @ d @ foot_bytes f'))
             = drop 1 (head_bytes h') @ d @ [need_ack f']"
    unfolding l by (simp add: length_head_bytes foot_bytes_def)
  have r: "crc16_f f' = crc16 (crc_tbl e) 0xFFFF
                  (take (unat (length_h h') + 6) (drop 1 (head_bytes h' @ d @ foot_bytes f')))"
    unfolding t by (simp add: f'_def raw_write_foot_eq)
  from a b c k r show ?thesis
    by (simp only: Let_def h_def [symmetric] h'_def [symmetric] f_def [symmetric]
        f'_def [symmetric] simp_thms)
qed

text \<open>The hypotheses of C2 hold for the watchdog payload of three bytes.\<close>

theorem frame_roundtrip_witness:
  "faults pmu_init = [] \<and> length [60, 60, 0 :: u8] < U16_MAX - 7
   \<and> (let h = raw_write_head 1 0x13 (length [60, 60, 0 :: u8]);
           f = raw_write_foot (crc_tbl env0) h True [60, 60, 0];
           h' = h\<lparr>source := PCAT_ADDR_PMU, dest := PCAT_ADDR_CPU\<rparr>;
           f' = raw_write_foot (crc_tbl env0) h' True [60, 60, 0]
       in tx (snd (pcat_pmu_raw_write env0 1 0x13 True [60, 60, 0] pmu_init))
            = tx pmu_init @ [head_bytes h, [60, 60, 0], foot_bytes f]
          \<and> pcat_process_data_check (crc_tbl env0) (head_bytes h @ [60, 60, 0] @ foot_bytes f) = Inl 0
          \<and> pcat_process_data_check (crc_tbl env0) (head_bytes h' @ [60, 60, 0] @ foot_bytes f')
              = Inr \<lparr> head = h', foot = f', data = [60, 60, 0] \<rparr>
          \<and> command h' = ucast (0x13 :: u32)
          \<and> crc16_f f' = crc16 (crc_tbl env0) 0xFFFF
                (take (unat (length_h h') + 6) (drop 1 (head_bytes h' @ [60, 60, 0] @ foot_bytes f'))))"
proof -
  have h: "faults pmu_init = []"
    by (simp add: pmu_init_def)
  have n: "length [60, 60, 0 :: u8] < U16_MAX - 7"
    by (simp add: U16_MAX_def)
  have d: "PCAT_ADDR_CPU = PCAT_ADDR_CPU \<or> PCAT_ADDR_CPU = PCAT_ADDR_CPU_ALL
           \<or> PCAT_ADDR_CPU = PCAT_ADDR_ALL"
    by simp
  show ?thesis
    by (rule conjI [OF h conjI [OF n
          frame_roundtrip [OF h n d, where fid = 1 and c = "0x13" and e = env0 and ack = True]]])
qed

text \<open>C2 as stated fails: what the encoder writes for command \<open>0x13\<close> and the body
  \<open>3C 3C 00\<close> is not decoded to a frame but dropped with result 0.\<close>

theorem frame_roundtrip_counterexample:
  "pcat_process_data_check (crc_tbl env0)
     (concat (tx (snd (pcat_pmu_raw_write env0 1 0x13 True [60, 60, 0] pmu_init)))) = Inl 0"
  by (simp add: pmu_init_def pcat_pmu_raw_write_def serdev_device_write_buf_def
      raw_write_head_def head_bytes_def le16_def Let_def foot_bytes_def
      pcat_process_data_check_def head_of_def sizeof_head_def PCAT_MAGIC_HEAD_def
      PCAT_ADDR_CPU_def PCAT_ADDR_PMU_def)

text \<open>The bound of C2 is sharp: a body of \<open>U16_MAX - 7\<close> bytes gives the length field
  \<open>U16_MAX - 4\<close>, which the decoder rejects.\<close>

lemma frame_roundtrip_bound:
  assumes "length d = U16_MAX - 7"
  shows "pcat_process_data_check tbl
           (head_bytes ((raw_write_head fid c (length d))\<lparr>source := PCAT_ADDR_PMU, dest := PCAT_ADDR_CPU\<rparr>)
              @ d @ foot_bytes (raw_write_foot tbl
                 ((raw_write_head fid c (length d))\<lparr>source := PCAT_ADDR_PMU, dest := PCAT_ADDR_CPU\<rparr>) ack d))
         = Inl (- EBADMSG)"
proof -
  define h where "h = (raw_write_head fid c (length d))\<lparr>source := PCAT_ADDR_PMU, dest := PCAT_ADDR_CPU\<rparr>"
  have l: "unat (length_h h) = 65531"
    using unat_raw_write_length [of "length d" fid c] assms
    by (simp add: h_def U16_MAX_def)
  have m: "magic_head h = PCAT_MAGIC_HEAD" "source h = PCAT_ADDR_PMU" "dest h = PCAT_ADDR_CPU"
    by (simp_all add: h_def raw_write_head_def)
  have "pcat_process_data_check tbl (head_bytes h @ d @ foot_bytes (raw_write_foot tbl h ack d))
          = Inl (- EBADMSG)"
    using l m
    by (simp add: pcat_process_data_check_def Let_def head_of_head_bytes length_head_bytes
        sizeof_head_def U16_MAX_def sizeof_foot_def)
  then show ?thesis
    by (simp only: h_def)
qed

subsection \<open>Correlation of replies and dispatch\<close>

lemma pmu_head_fields:
  "magic_head (pmu_head dst fid c n) = PCAT_MAGIC_HEAD"
  "source (pmu_head dst fid c n) = PCAT_ADDR_PMU"
  "dest (pmu_head dst fid c n) = dst"
  "frame_id_h (pmu_head dst fid c n) = fid"
  "command (pmu_head dst fid c n) = ucast c"
  by (simp_all add: pmu_head_def raw_write_head_def)

lemma unat_pmu_head_length:
  "n < 65533 \<Longrightarrow> unat (length_h (pmu_head dst fid c n)) = n + 3"
  using unat_raw_write_length [of n fid c] by (simp add: pmu_head_def)

lemma check_pmu_frame:
  assumes "length d < 65528"
    and "dst = PCAT_ADDR_CPU \<or> dst = PCAT_ADDR_CPU_ALL \<or> dst = PCAT_ADDR_ALL"
  shows "pcat_process_data_check tbl (pmu_frame tbl dst fid c ack d @ rest)
           = Inr (pmu_data tbl dst fid c ack d)"
proof -
  let ?h = "pmu_head dst fid c (length d)"
  let ?f = "raw_write_foot tbl ?h ack d"
  have "pcat_process_data_check tbl (head_bytes ?h @ d @ foot_bytes ?f @ rest)
          = Inr \<lparr> head = ?h, foot = ?f, data = d \<rparr>"
    using assms
    by (intro check_frame)
      (simp_all add: pmu_head_fields unat_pmu_head_length raw_write_foot_eq)
  then show ?thesis
    by (simp add: pmu_frame_def pmu_data_def)
qed

lemma process_reply_none:
  "reply_p s = None \<Longrightarrow> pcat_process_reply e p s = (False, s)"
  by (simp add: pcat_process_reply_def)

lemma process_reply_matches:
  assumes "reply_p s = Some a"
  shows "fst (pcat_process_reply e p s) \<longleftrightarrow>
           frame_id (mem s a) = frame_id_h (head p)
           \<and> expected_reply (request (mem s a)) = command (head p)
           \<and> \<not> completion_done (received (mem s a))"
  using assms
  by (auto simp add: pcat_process_reply_def expected_reply_def Let_def)

lemma process_reply_skip:
  assumes "\<not> fst (pcat_process_reply e p s)"
  shows "reply_p (snd (pcat_process_reply e p s)) = reply_p s"
    and "received (mem (snd (pcat_process_reply e p s)) b) = received (mem s b)"
    and "reply (mem (snd (pcat_process_reply e p s)) b) = reply (mem s b)"
    and "frame_id (mem (snd (pcat_process_reply e p s)) b) = frame_id (mem s b)"
    and "tx (snd (pcat_process_reply e p s)) = tx s"
    and "faults (snd (pcat_process_reply e p s)) = faults s"
    and "trace (snd (pcat_process_reply e p s)) = trace s"
    and "frame (snd (pcat_process_reply e p s)) = frame s"
  using assms
  by (auto simp add: pcat_process_reply_def Let_def split: option.splits if_splits)

lemma process_reply_done:
  assumes "fst (pcat_process_reply e p s)" and "reply_p s = Some a"
  shows "reply_p (snd (pcat_process_reply e p s)) = None"
    and "received (mem (snd (pcat_process_reply e p s)) a) = 1"
    and "head_r (reply (mem (snd (pcat_process_reply e p s)) a)) = head p"
    and "foot_r (reply (mem (snd (pcat_process_reply e p s)) a)) = foot p"
  using assms
  by (auto simp add: pcat_process_reply_def Let_def completion_done_def complete_def
      split: option.splits if_splits)

lemma write_buf_keeps:
  "frame (snd (serdev_device_write_buf b s)) = frame s"
  "buffer (snd (serdev_device_write_buf b s)) = buffer s"
  "length_b (snd (serdev_device_write_buf b s)) = length_b s"
  "reply_p (snd (serdev_device_write_buf b s)) = reply_p s"
  "mem (snd (serdev_device_write_buf b s)) = mem s"
  "trace (snd (serdev_device_write_buf b s)) = trace s"
  by (simp_all add: serdev_device_write_buf_def split: list.splits)

lemma raw_write_keeps:
  "frame (snd (pcat_pmu_raw_write e fid c ack d s)) = frame s"
  "buffer (snd (pcat_pmu_raw_write e fid c ack d s)) = buffer s"
  "length_b (snd (pcat_pmu_raw_write e fid c ack d s)) = length_b s"
  "reply_p (snd (pcat_pmu_raw_write e fid c ack d s)) = reply_p s"
  "mem (snd (pcat_pmu_raw_write e fid c ack d s)) = mem s"
  "trace (snd (pcat_pmu_raw_write e fid c ack d s))
     = trace s @ [Ev_write fid c ack d (fst (pcat_pmu_raw_write e fid c ack d s))]"
  by (simp_all add: pcat_pmu_raw_write_def Let_def case_prod_unfold write_buf_keeps)

lemma process_data_inl:
  "pcat_process_data_check (crc_tbl e) bs = Inl r \<Longrightarrow> pcat_process_data e bs s = (r, s)"
  by (simp add: pcat_process_data_def)

lemma process_data_done:
  assumes "pcat_process_data_check (crc_tbl e) bs = Inr p" and "fst (pcat_process_reply e p s)"
  shows "pcat_process_data e bs s = (0, snd (pcat_process_reply e p s))"
  using assms by (simp add: pcat_process_data_def case_prod_unfold)

lemma process_data_skip:
  assumes "pcat_process_data_check (crc_tbl e) bs = Inr p" and "\<not> fst (pcat_process_reply e p s)"
  shows "pcat_process_data e bs s =
          (0, let s2 = (snd (pcat_process_reply e p s))
                         \<lparr>trace := trace s @ [Ev_notify (command (head p)) p]\<rparr>
              in if notifier e (command (head p)) p = NOTIFY_DONE \<and> need_ack (foot p) \<noteq> 0
                 then snd (pcat_pmu_raw_write e (frame_id_h (head p))
                             (ucast (command (head p)) + 1) False [] s2)
                 else s2)"
  using assms process_reply_skip(7) [OF assms(2)]
  by (simp add: pcat_process_data_def blocking_notifier_call_chain_def Let_def case_prod_unfold)

lemma unat_ucast_16_32: "unat (ucast (c :: 16 word) :: 32 word) = unat c"
proof -
  have "unat c < 2 ^ 32"
    using unsigned_less [of c, where 'a = nat] by simp
  then show ?thesis
    by (simp add: unsigned_ucast_eq take_bit_nat_eq_self)
qed

lemma ucast_plus: "(ucast ((ucast (c::16 word) :: 32 word) + 1) :: 16 word) = c + 1"
proof -
  have lt: "unat c < 65536"
    using unsigned_less [of c, where 'a = nat] by simp
  have "unat ((ucast c :: 32 word) + 1) = unat c + 1"
  proof -
    have "unat (ucast c :: 32 word) + unat (1 :: 32 word) < 2 ^ LENGTH(32)"
      using lt by (simp add: unat_ucast_16_32)
    then have "unat ((ucast c :: 32 word) + 1) = unat (ucast c :: 32 word) + unat (1 :: 32 word)"
      by (simp only: unat_add_lem [THEN iffD1])
    then show ?thesis
      by (simp add: unat_ucast_16_32)
  qed
  then have "(of_nat (unat ((ucast c :: 32 word) + 1)) :: 16 word) = of_nat (unat c + 1)"
    by simp
  then show ?thesis
    by simp
qed

lemma memcpy_kzalloc:
  "memcpy (replicate (length d + 1) 0) 0 d = d @ [0]"
  "memcpy (0 # replicate (length d) 0) 0 d = d @ [0]"
proof -
  have "drop (length d) (replicate (length d + 1) (0 :: u8)) = replicate 1 0"
    by (simp only: drop_replicate) simp
  then show "memcpy (replicate (length d + 1) 0) 0 d = d @ [0]"
    by (simp add: memcpy_def del: replicate.simps) simp
  then show "memcpy (0 # replicate (length d) 0) 0 d = d @ [0]"
    by simp
qed

lemma process_reply_payload:
  assumes "fst (pcat_process_reply e p s)" and "reply_p s = Some a"
    and "data p \<noteq> []" and "kzalloc_ok e (length (data p) + 1)"
  shows "data_r (reply (mem (snd (pcat_process_reply e p s)) a)) = Some (data p @ [0])"
    and "size_r (reply (mem (snd (pcat_process_reply e p s)) a)) = length (data p)"
  using assms
  by (simp_all add: pcat_process_reply_def Let_def devm_kzalloc_def memcpy_kzalloc
      split: if_splits)

text \<open>
  C4. A decoded, validated, address-accepted frame completes the pending request if
  and only if its frame id equals the frame id of the pending request, its command
  equals the reply command the request expects, and the completion of the request has
  not fired yet. This holds of the flag that \<open>pcat_process_reply\<close> returns and of the
  state: the completion count of the request changes in exactly that case. When the
  frame completes the request, the completion fires once, head and foot are copied,
  the payload is stored with its size where there is one and the allocation succeeds,
  the slot is cleared and no subscriber sees the frame. In every other case (a foreign
  frame id, another command, a completion that has fired already) completion, reply and
  slot stay as they are and the frame is offered to the notifier chain; so it is for a
  frame whose id matches but whose command is the expected command plus 2.
\<close>

theorem reply_correlation:
  assumes "pcat_process_data_check (crc_tbl e) bs = Inr p" and "reply_p s = Some a"
  shows "(fst (pcat_process_reply e p s) \<longleftrightarrow>
            frame_id (mem s a) = frame_id_h (head p)
            \<and> expected_reply (request (mem s a)) = command (head p)
            \<and> \<not> completion_done (received (mem s a)))
       \<and> (received (mem (snd (pcat_process_data e bs s)) a) \<noteq> received (mem s a) \<longleftrightarrow>
            frame_id (mem s a) = frame_id_h (head p)
            \<and> expected_reply (request (mem s a)) = command (head p)
            \<and> \<not> completion_done (received (mem s a)))
       \<and> (fst (pcat_process_reply e p s) \<longrightarrow>
            (let s' = snd (pcat_process_data e bs s)
             in completion_done (received (mem s' a)) \<and> reply_p s' = None
                \<and> head_r (reply (mem s' a)) = head p \<and> trace s' = trace s))
       \<and> (frame_id (mem s a) = frame_id_h (head p)
            \<and> expected_reply (request (mem s a)) = command (head p)
            \<and> \<not> completion_done (received (mem s a)) \<longrightarrow>
            (let s' = snd (pcat_process_data e bs s)
             in received (mem s' a) = 1 \<and> reply_p s' = None
                \<and> head_r (reply (mem s' a)) = head p \<and> foot_r (reply (mem s' a)) = foot p
                \<and> (data p \<noteq> [] \<and> kzalloc_ok e (length (data p) + 1) \<longrightarrow>
                      data_r (reply (mem s' a)) = Some (data p @ [0])
                      \<and> size_r (reply (mem s' a)) = length (data p))
                \<and> new_events s s' = []))
       \<and> (\<not> (frame_id (mem s a) = frame_id_h (head p)
               \<and> expected_reply (request (mem s a)) = command (head p)
               \<and> \<not> completion_done (received (mem s a))) \<longrightarrow>
            (let s' = snd (pcat_process_data e bs s)
             in received (mem s' a) = received (mem s a)
                \<and> reply (mem s' a) = reply (mem s a)
                \<and> reply_p s' = Some a
                \<and> take 1 (new_events s s') = [Ev_notify (command (head p)) p]))
       \<and> (frame_id (mem s a) = frame_id_h (head p)
            \<and> command (head p) = expected_reply (request (mem s a)) + 2 \<longrightarrow>
            (let s' = snd (pcat_process_data e bs s)
             in \<not> fst (pcat_process_reply e p s)
                \<and> received (mem s' a) = received (mem s a)
                \<and> reply (mem s' a) = reply (mem s a)
                \<and> reply_p s' = Some a
                \<and> take 1 (drop (length (trace s)) (trace s'))
                    = [Ev_notify (command (head p)) p]))"
proof -
  define m where "m \<longleftrightarrow> frame_id (mem s a) = frame_id_h (head p)
            \<and> expected_reply (request (mem s a)) = command (head p)
            \<and> \<not> completion_done (received (mem s a))"
  define s' where "s' = snd (pcat_process_data e bs s)"
  have i: "fst (pcat_process_reply e p s) \<longleftrightarrow> m"
    unfolding m_def by (rule process_reply_matches [OF assms(2)])
  have yes: "received (mem s' a) = 1 \<and> reply_p s' = None
             \<and> head_r (reply (mem s' a)) = head p \<and> foot_r (reply (mem s' a)) = foot p
             \<and> (data p \<noteq> [] \<and> kzalloc_ok e (length (data p) + 1) \<longrightarrow>
                   data_r (reply (mem s' a)) = Some (data p @ [0])
                   \<and> size_r (reply (mem s' a)) = length (data p))
             \<and> trace s' = trace s" if m
  proof -
    from that have f: "fst (pcat_process_reply e p s)"
      by (simp add: i)
    have t: "trace (snd (pcat_process_reply e p s)) = trace s"
      using f assms(2)
      by (auto simp add: pcat_process_reply_def Let_def split: option.splits if_splits)
    have e: "s' = snd (pcat_process_reply e p s)"
      by (simp add: s'_def process_data_done [OF assms(1) f])
    show ?thesis
      unfolding e
      using process_reply_done [OF f assms(2)] t process_reply_payload [OF f assms(2)]
      by simp
  qed
  have no: "\<not> fst (pcat_process_reply e p s)
            \<and> received (mem s' a) = received (mem s a)
            \<and> reply (mem s' a) = reply (mem s a)
            \<and> reply_p s' = Some a
            \<and> take 1 (drop (length (trace s)) (trace s')) = [Ev_notify (command (head p)) p]"
    if "\<not> m"
  proof -
    from that have n: "\<not> fst (pcat_process_reply e p s)"
      by (simp add: i)
    show ?thesis
      unfolding s'_def
      using n process_reply_skip(1-3) [OF n] assms(2)
      by (simp add: process_data_skip [OF assms(1) n] Let_def raw_write_keeps)
  qed
  have plus: "\<not> m"
    if "frame_id (mem s a) = frame_id_h (head p)
        \<and> command (head p) = expected_reply (request (mem s a)) + 2"
    using that by (simp add: m_def)
  have r0: "received (mem s a) = 0" if m
    using that by (simp add: m_def completion_done_def)
  have c2: "received (mem s' a) \<noteq> received (mem s a) \<longleftrightarrow> m"
  proof (cases m)
    case True
    with yes [OF True] r0 [OF True] show ?thesis
      by simp
  next
    case False
    with no [OF False] show ?thesis
      by simp
  qed
  have c3: "fst (pcat_process_reply e p s) \<longrightarrow>
              completion_done (received (mem s' a)) \<and> reply_p s' = None
              \<and> head_r (reply (mem s' a)) = head p \<and> trace s' = trace s"
    using yes i by (simp add: completion_done_def)
  have c4: "m \<longrightarrow> received (mem s' a) = 1 \<and> reply_p s' = None
                \<and> head_r (reply (mem s' a)) = head p \<and> foot_r (reply (mem s' a)) = foot p
                \<and> (data p \<noteq> [] \<and> kzalloc_ok e (length (data p) + 1) \<longrightarrow>
                      data_r (reply (mem s' a)) = Some (data p @ [0])
                      \<and> size_r (reply (mem s' a)) = length (data p))
                \<and> new_events s s' = []"
    using yes by (simp add: new_events_def)
  have c5: "\<not> m \<longrightarrow> received (mem s' a) = received (mem s a)
                \<and> reply (mem s' a) = reply (mem s a)
                \<and> reply_p s' = Some a
                \<and> take 1 (new_events s s') = [Ev_notify (command (head p)) p]"
    using no by (simp add: new_events_def)
  have c6: "frame_id (mem s a) = frame_id_h (head p)
            \<and> command (head p) = expected_reply (request (mem s a)) + 2 \<longrightarrow>
            \<not> fst (pcat_process_reply e p s)
                \<and> received (mem s' a) = received (mem s a)
                \<and> reply (mem s' a) = reply (mem s a)
                \<and> reply_p s' = Some a
                \<and> take 1 (drop (length (trace s)) (trace s'))
                    = [Ev_notify (command (head p)) p]"
    using no plus by blast
  from i c2 c3 c4 c5 c6 show ?thesis
    unfolding Let_def m_def s'_def by blast
qed

text \<open>The hypotheses of C4 hold for the pending watchdog request (frame id 1, expected
  reply \<open>0x14\<close>): a frame of the PMU with id 1 and command \<open>0x16\<close> goes to the notifier
  chain, one with id 1 and command \<open>0x14\<close> completes the request, and one with the
  foreign id 2 and command \<open>0x14\<close> leaves the request as it is and goes to the chain.\<close>

theorem reply_correlation_witness:
  "pcat_process_data_check (crc_tbl env0) (pmu_frame crc16_table PCAT_ADDR_CPU 1 0x16 False [])
     = Inr (pmu_data crc16_table PCAT_ADDR_CPU 1 0x16 False [])
   \<and> reply_p pmu_pending = Some 0
   \<and> frame_id (mem pmu_pending 0) = frame_id_h (head (pmu_data crc16_table PCAT_ADDR_CPU 1 0x16 False []))
   \<and> command (head (pmu_data crc16_table PCAT_ADDR_CPU 1 0x16 False []))
       = expected_reply (request (mem pmu_pending 0)) + 2
   \<and> \<not> fst (pcat_process_reply env0 (pmu_data crc16_table PCAT_ADDR_CPU 1 0x16 False []) pmu_pending)
   \<and> reply_p (snd (pcat_process_data env0 (pmu_frame crc16_table PCAT_ADDR_CPU 1 0x16 False [])
                  pmu_pending)) = Some 0
   \<and> take 1 (drop (length (trace pmu_pending))
         (trace (snd (pcat_process_data env0 (pmu_frame crc16_table PCAT_ADDR_CPU 1 0x16 False [])
                  pmu_pending))))
       = [Ev_notify 0x16 (pmu_data crc16_table PCAT_ADDR_CPU 1 0x16 False [])]
   \<and> pcat_process_data_check (crc_tbl env0) (pmu_frame crc16_table PCAT_ADDR_CPU 1 0x14 False [])
       = Inr (pmu_data crc16_table PCAT_ADDR_CPU 1 0x14 False [])
   \<and> fst (pcat_process_reply env0 (pmu_data crc16_table PCAT_ADDR_CPU 1 0x14 False []) pmu_pending)
   \<and> reply_p (snd (pcat_process_data env0 (pmu_frame crc16_table PCAT_ADDR_CPU 1 0x14 False [])
                  pmu_pending)) = None
   \<and> received (mem (snd (pcat_process_data env0 (pmu_frame crc16_table PCAT_ADDR_CPU 1 0x14 False [])
                  pmu_pending)) 0) = 1
   \<and> pcat_process_data_check (crc_tbl env0) (pmu_frame crc16_table PCAT_ADDR_CPU 2 0x14 False [])
       = Inr (pmu_data crc16_table PCAT_ADDR_CPU 2 0x14 False [])
   \<and> received (mem (snd (pcat_process_data env0 (pmu_frame crc16_table PCAT_ADDR_CPU 2 0x14 False [])
                  pmu_pending)) 0) = 0
   \<and> reply (mem (snd (pcat_process_data env0 (pmu_frame crc16_table PCAT_ADDR_CPU 2 0x14 False [])
                  pmu_pending)) 0) = zero_reply
   \<and> reply_p (snd (pcat_process_data env0 (pmu_frame crc16_table PCAT_ADDR_CPU 2 0x14 False [])
                  pmu_pending)) = Some 0
   \<and> take 1 (new_events pmu_pending
         (snd (pcat_process_data env0 (pmu_frame crc16_table PCAT_ADDR_CPU 2 0x14 False [])
                  pmu_pending)))
       = [Ev_notify 0x14 (pmu_data crc16_table PCAT_ADDR_CPU 2 0x14 False [])]"
proof -
  let ?p = "pmu_data crc16_table PCAT_ADDR_CPU 1 0x16 False []"
  let ?bs = "pmu_frame crc16_table PCAT_ADDR_CPU 1 0x16 False []"
  let ?p' = "pmu_data crc16_table PCAT_ADDR_CPU 1 0x14 False []"
  let ?bs' = "pmu_frame crc16_table PCAT_ADDR_CPU 1 0x14 False []"
  let ?q = "pmu_data crc16_table PCAT_ADDR_CPU 2 0x14 False []"
  let ?fq = "pmu_frame crc16_table PCAT_ADDR_CPU 2 0x14 False []"
  have c: "pcat_process_data_check (crc_tbl env0) ?bs = Inr ?p"
    using check_pmu_frame [of "[]" PCAT_ADDR_CPU crc16_table 1 "0x16" False "[]"]
    by (simp add: env0_def)
  have c': "pcat_process_data_check (crc_tbl env0) ?bs' = Inr ?p'"
    using check_pmu_frame [of "[]" PCAT_ADDR_CPU crc16_table 1 "0x14" False "[]"]
    by (simp add: env0_def)
  have cq: "pcat_process_data_check (crc_tbl env0) ?fq = Inr ?q"
    using check_pmu_frame [of "[]" PCAT_ADDR_CPU crc16_table 2 "0x14" False "[]"]
    by (simp add: env0_def)
  have r: "reply_p pmu_pending = Some 0"
    by (simp add: pmu_pending_def)
  have i: "frame_id (mem pmu_pending 0) = frame_id_h (head ?p)"
    by (simp add: pmu_pending_def pmu_data_def pmu_head_fields)
  have k: "command (head ?p) = expected_reply (request (mem pmu_pending 0)) + 2"
    by (simp add: pmu_pending_def pmu_data_def pmu_head_fields expected_reply_def)
  have k': "command (head ?p) = 0x16" "command (head ?q) = 0x14"
    by (simp_all add: pmu_data_def pmu_head_fields)
  have z: "received (mem pmu_pending 0) = 0" "reply (mem pmu_pending 0) = zero_reply"
    by (simp_all add: pmu_pending_def)
  from reply_correlation [OF c r] i k
  have "let s' = snd (pcat_process_data env0 ?bs pmu_pending)
        in \<not> fst (pcat_process_reply env0 ?p pmu_pending)
           \<and> received (mem s' 0) = received (mem pmu_pending 0)
           \<and> reply (mem s' 0) = reply (mem pmu_pending 0)
           \<and> reply_p s' = Some 0
           \<and> take 1 (drop (length (trace pmu_pending)) (trace s')) = [Ev_notify (command (head ?p)) ?p]"
    by blast
  then have n: "\<not> fst (pcat_process_reply env0 ?p pmu_pending)"
    "reply_p (snd (pcat_process_data env0 ?bs pmu_pending)) = Some 0"
    "take 1 (drop (length (trace pmu_pending)) (trace (snd (pcat_process_data env0 ?bs pmu_pending))))
       = [Ev_notify 0x16 ?p]"
    by (simp_all only: Let_def k' simp_thms)
  have j: "frame_id (mem pmu_pending 0) = frame_id_h (head ?p')
           \<and> expected_reply (request (mem pmu_pending 0)) = command (head ?p')
           \<and> \<not> completion_done (received (mem pmu_pending 0))"
    by (simp add: pmu_pending_def pmu_data_def pmu_head_fields expected_reply_def
        completion_done_def)
  from reply_correlation [OF c' r] j
  have m: "fst (pcat_process_reply env0 ?p' pmu_pending)"
    by blast
  from reply_correlation [OF c' r] j
  have "let s' = snd (pcat_process_data env0 ?bs' pmu_pending)
        in received (mem s' 0) = 1 \<and> reply_p s' = None
           \<and> head_r (reply (mem s' 0)) = head ?p' \<and> foot_r (reply (mem s' 0)) = foot ?p'
           \<and> (data ?p' \<noteq> [] \<and> kzalloc_ok env0 (length (data ?p') + 1) \<longrightarrow>
                 data_r (reply (mem s' 0)) = Some (data ?p' @ [0])
                 \<and> size_r (reply (mem s' 0)) = length (data ?p'))
           \<and> new_events pmu_pending s' = []"
    by blast
  then have d: "reply_p (snd (pcat_process_data env0 ?bs' pmu_pending)) = None"
    "received (mem (snd (pcat_process_data env0 ?bs' pmu_pending)) 0) = 1"
    unfolding Let_def by blast+
  have jq: "\<not> (frame_id (mem pmu_pending 0) = frame_id_h (head ?q)
               \<and> expected_reply (request (mem pmu_pending 0)) = command (head ?q)
               \<and> \<not> completion_done (received (mem pmu_pending 0)))"
    by (simp add: pmu_pending_def pmu_data_def pmu_head_fields)
  from reply_correlation [OF cq r] jq
  have "let s' = snd (pcat_process_data env0 ?fq pmu_pending)
        in received (mem s' 0) = received (mem pmu_pending 0)
           \<and> reply (mem s' 0) = reply (mem pmu_pending 0)
           \<and> reply_p s' = Some 0
           \<and> take 1 (new_events pmu_pending s') = [Ev_notify (command (head ?q)) ?q]"
    by blast
  then have f: "received (mem (snd (pcat_process_data env0 ?fq pmu_pending)) 0) = 0"
    "reply (mem (snd (pcat_process_data env0 ?fq pmu_pending)) 0) = zero_reply"
    "reply_p (snd (pcat_process_data env0 ?fq pmu_pending)) = Some 0"
    "take 1 (new_events pmu_pending (snd (pcat_process_data env0 ?fq pmu_pending)))
       = [Ev_notify 0x14 ?q]"
    by (simp_all only: Let_def k' z simp_thms)
  from c r i k n c' m d cq f show ?thesis
    by (simp only: simp_thms)
qed

text \<open>
  C5. For a decoded, validated frame with \<open>need_ack\<close> set and command \<open>C\<close> that
  matches no pending request and for which the notifier chain returns \<open>NOTIFY_DONE\<close>,
  the engine calls the notifier chain and then writes exactly one frame, with the
  command \<open>C + 1\<close>, an empty body and \<open>need_ack = 0\<close>; where the serial device accepts
  the writes, head, empty body and foot of that frame are what reaches the line.
\<close>

theorem auto_ack:
  assumes "pcat_process_data_check (crc_tbl e) bs = Inr p"
    and "need_ack (foot p) \<noteq> 0"
    and "\<not> fst (pcat_process_reply e p s)"
    and "notifier e (command (head p)) p = NOTIFY_DONE"
  shows "(let s' = snd (pcat_process_data e bs s);
              h = raw_write_head (frame_id_h (head p)) (ucast (command (head p)) + 1) 0;
              f = raw_write_foot (crc_tbl e) h False []
          in (\<exists>r. drop (length (trace s)) (trace s')
                     = [Ev_notify (command (head p)) p,
                        Ev_write (frame_id_h (head p)) (ucast (command (head p)) + 1) False [] r])
             \<and> command h = command (head p) + 1
             \<and> need_ack f = 0
             \<and> (faults s = [] \<longrightarrow> tx s' = tx s @ [head_bytes h, [], foot_bytes f]))"
proof -
  define s2 where "s2 = (snd (pcat_process_reply e p s))
                          \<lparr>trace := trace s @ [Ev_notify (command (head p)) p]\<rparr>"
  have pd: "snd (pcat_process_data e bs s)
              = snd (pcat_pmu_raw_write e (frame_id_h (head p)) (ucast (command (head p)) + 1)
                       False [] s2)"
    using assms(2,4) by (simp add: process_data_skip [OF assms(1,3)] Let_def s2_def)
  have t2: "trace s2 = trace s @ [Ev_notify (command (head p)) p]"
    by (simp add: s2_def)
  have x2: "tx s2 = tx s" "faults s2 = faults s"
    using process_reply_skip(5,6) [OF assms(3)] by (simp_all add: s2_def)
  have w: "faults s = [] \<Longrightarrow>
             tx (snd (pcat_pmu_raw_write e fid c False [] s2))
               = tx s @ [head_bytes (raw_write_head fid c 0), [],
                         foot_bytes (raw_write_foot (crc_tbl e) (raw_write_head fid c 0) False [])]"
    for fid c
    using raw_write_ok [of s2 e fid c False "[]"] x2 by simp
  have k: "command (raw_write_head fid (ucast (command (head p)) + 1) 0) = command (head p) + 1"
    for fid
    by (simp add: raw_write_head_def ucast_plus)
  have z: "need_ack (raw_write_foot tbl h False []) = 0" for tbl h
    by (simp add: raw_write_foot_eq)
  show ?thesis
    unfolding Let_def pd
    by (simp add: raw_write_keeps t2 w k z)
qed

text \<open>The hypotheses of C5 hold for a status report (command \<open>0x07\<close>) with \<open>need_ack\<close>
  set, received while no request is pending.\<close>

theorem auto_ack_witness:
  "pcat_process_data_check (crc_tbl env0) (pmu_frame crc16_table PCAT_ADDR_CPU 9 0x07 True [])
     = Inr (pmu_data crc16_table PCAT_ADDR_CPU 9 0x07 True [])
   \<and> need_ack (foot (pmu_data crc16_table PCAT_ADDR_CPU 9 0x07 True [])) \<noteq> 0
   \<and> \<not> fst (pcat_process_reply env0 (pmu_data crc16_table PCAT_ADDR_CPU 9 0x07 True []) pmu_init)
   \<and> notifier env0 (command (head (pmu_data crc16_table PCAT_ADDR_CPU 9 0x07 True [])))
        (pmu_data crc16_table PCAT_ADDR_CPU 9 0x07 True []) = NOTIFY_DONE
   \<and> faults pmu_init = []
   \<and> tx (snd (pcat_process_data env0 (pmu_frame crc16_table PCAT_ADDR_CPU 9 0x07 True []) pmu_init))
       = [head_bytes (raw_write_head 9 0x08 0), [],
          foot_bytes (raw_write_foot (crc_tbl env0) (raw_write_head 9 0x08 0) False [])]"
proof -
  let ?p = "pmu_data crc16_table PCAT_ADDR_CPU 9 0x07 True []"
  let ?bs = "pmu_frame crc16_table PCAT_ADDR_CPU 9 0x07 True []"
  have c: "pcat_process_data_check (crc_tbl env0) ?bs = Inr ?p"
    using check_pmu_frame [of "[]" PCAT_ADDR_CPU crc16_table 9 "0x07" True "[]"]
    by (simp add: env0_def)
  have a: "need_ack (foot ?p) \<noteq> 0"
    by (simp add: pmu_data_def raw_write_foot_eq)
  have n: "\<not> fst (pcat_process_reply env0 ?p pmu_init)"
    by (simp add: process_reply_none pmu_init_def)
  have d: "notifier env0 (command (head ?p)) ?p = NOTIFY_DONE"
    by (simp add: env0_def)
  have f: "faults pmu_init = []" and t: "tx pmu_init = []"
    by (simp_all add: pmu_init_def)
  have h: "frame_id_h (head ?p) = 9" "ucast (command (head ?p)) + 1 = (0x08 :: u32)"
    by (simp_all add: pmu_data_def pmu_head_fields)
  from auto_ack [OF c a n d] f
  have "tx (snd (pcat_process_data env0 ?bs pmu_init))
          = tx pmu_init @ [head_bytes (raw_write_head (frame_id_h (head ?p)) (ucast (command (head ?p)) + 1) 0), [],
             foot_bytes (raw_write_foot (crc_tbl env0)
               (raw_write_head (frame_id_h (head ?p)) (ucast (command (head ?p)) + 1) 0) False [])]"
    by (simp only: Let_def simp_thms)
  with c a n d f show ?thesis
    by (simp only: h t append_Nil simp_thms)
qed

text \<open>
  C10. The automatic acknowledgment carries the frame id of the received frame: the
  frame counter stays as it was, and the frame id written on the line is the one
  received. \<open>pcat_pmu_send\<close> instead advances the counter and writes its new value.
\<close>

theorem auto_ack_frame_id:
  assumes "pcat_process_data_check (crc_tbl e) bs = Inr p"
    and "need_ack (foot p) \<noteq> 0"
    and "\<not> fst (pcat_process_reply e p s)"
    and "notifier e (command (head p)) p = NOTIFY_DONE"
    and "faults s = []"
  shows "(let s' = snd (pcat_process_data e bs s)
          in frame s' = frame s
             \<and> take 5 (concat (drop (length (tx s)) (tx s')))
                 = [PCAT_MAGIC_HEAD, PCAT_ADDR_CPU, PCAT_ADDR_PMU] @ le16 (frame_id_h (head p)))
       \<and> (let t = snd (pcat_pmu_send e c d s)
          in frame t = frame s + 1
             \<and> take 5 (concat (drop (length (tx s)) (tx t)))
                 = [PCAT_MAGIC_HEAD, PCAT_ADDR_CPU, PCAT_ADDR_PMU] @ le16 (ucast (frame s + 1)))"
proof -
  define s2 where "s2 = (snd (pcat_process_reply e p s))
                          \<lparr>trace := trace s @ [Ev_notify (command (head p)) p]\<rparr>"
  have pd: "snd (pcat_process_data e bs s)
              = snd (pcat_pmu_raw_write e (frame_id_h (head p)) (ucast (command (head p)) + 1)
                       False [] s2)"
    using assms(2,4) by (simp add: process_data_skip [OF assms(1,3)] Let_def s2_def)
  have x2: "tx s2 = tx s" "faults s2 = []" "frame s2 = frame s"
    using process_reply_skip(5,6,8) [OF assms(3)] assms(5) by (simp_all add: s2_def)
  have hb: "take 5 (concat [head_bytes (raw_write_head fid k n), x, y])
              = [PCAT_MAGIC_HEAD, PCAT_ADDR_CPU, PCAT_ADDR_PMU] @ le16 fid" for fid k n x y
    by (simp add: head_bytes_def raw_write_head_def le16_def)
  have a: "frame (snd (pcat_process_data e bs s)) = frame s"
    by (simp add: pd raw_write_keeps x2)
  have b: "take 5 (concat (drop (length (tx s)) (tx (snd (pcat_process_data e bs s)))))
             = [PCAT_MAGIC_HEAD, PCAT_ADDR_CPU, PCAT_ADDR_PMU] @ le16 (frame_id_h (head p))"
    unfolding pd raw_write_ok [OF x2(2)] by (simp add: x2 hb del: concat.simps)
  have sd: "pcat_pmu_send e c d s
              = pcat_pmu_raw_write e (ucast (frame s + 1)) c False d (s\<lparr>frame := frame s + 1\<rparr>)"
    by (simp add: pcat_pmu_send_def atomic_inc_return_def)
  have f': "faults (s\<lparr>frame := frame s + 1\<rparr>) = []"
    using assms(5) by simp
  have c: "frame (snd (pcat_pmu_send e c d s)) = frame s + 1"
    by (simp add: sd raw_write_keeps)
  have d: "take 5 (concat (drop (length (tx s)) (tx (snd (pcat_pmu_send e c d s)))))
             = [PCAT_MAGIC_HEAD, PCAT_ADDR_CPU, PCAT_ADDR_PMU] @ le16 (ucast (frame s + 1))"
    unfolding sd raw_write_ok [OF f'] by (simp add: hb del: concat.simps)
  from a b c d show ?thesis
    by (simp only: Let_def simp_thms)
qed

text \<open>The hypotheses of C10 hold for a shutdown request of the PMU with frame id
  \<open>0x1234\<close>, received while the counter is 1.\<close>

theorem auto_ack_frame_id_witness:
  "pcat_process_data_check (crc_tbl env0) (pmu_frame crc16_table PCAT_ADDR_ALL 0x1234 0x0D True [0])
     = Inr (pmu_data crc16_table PCAT_ADDR_ALL 0x1234 0x0D True [0])
   \<and> need_ack (foot (pmu_data crc16_table PCAT_ADDR_ALL 0x1234 0x0D True [0])) \<noteq> 0
   \<and> \<not> fst (pcat_process_reply env0 (pmu_data crc16_table PCAT_ADDR_ALL 0x1234 0x0D True [0]) pmu_pending)
   \<and> notifier env0 (command (head (pmu_data crc16_table PCAT_ADDR_ALL 0x1234 0x0D True [0])))
        (pmu_data crc16_table PCAT_ADDR_ALL 0x1234 0x0D True [0]) = NOTIFY_DONE
   \<and> faults pmu_pending = []
   \<and> frame (snd (pcat_process_data env0 (pmu_frame crc16_table PCAT_ADDR_ALL 0x1234 0x0D True [0])
                 pmu_pending)) = 1
   \<and> take 5 (concat (drop (length (tx pmu_pending))
         (tx (snd (pcat_process_data env0 (pmu_frame crc16_table PCAT_ADDR_ALL 0x1234 0x0D True [0])
                 pmu_pending)))))
       = [0xA5, 0x01, 0x81, 0x34, 0x12]
   \<and> frame (snd (pcat_pmu_send env0 1 [] pmu_pending)) = 2
   \<and> take 5 (concat (drop (length (tx pmu_pending)) (tx (snd (pcat_pmu_send env0 1 [] pmu_pending)))))
       = [0xA5, 0x01, 0x81, 0x02, 0x00]"
proof -
  let ?p = "pmu_data crc16_table PCAT_ADDR_ALL 0x1234 0x0D True [0]"
  let ?bs = "pmu_frame crc16_table PCAT_ADDR_ALL 0x1234 0x0D True [0]"
  have c: "pcat_process_data_check (crc_tbl env0) ?bs = Inr ?p"
    using check_pmu_frame [of "[0]" PCAT_ADDR_ALL crc16_table "0x1234" "0x0D" True "[]"]
    by (simp add: env0_def)
  have a: "need_ack (foot ?p) \<noteq> 0"
    by (simp add: pmu_data_def raw_write_foot_eq)
  have r: "reply_p pmu_pending = Some 0"
    by (simp add: pmu_pending_def)
  have "frame_id (mem pmu_pending 0) \<noteq> frame_id_h (head ?p)"
    by (simp add: pmu_pending_def pmu_data_def pmu_head_fields)
  then have n: "\<not> fst (pcat_process_reply env0 ?p pmu_pending)"
    by (simp only: process_reply_matches [OF r] simp_thms)
  have d: "notifier env0 (command (head ?p)) ?p = NOTIFY_DONE"
    by (simp add: env0_def)
  have f: "faults pmu_pending = []"
    by (simp add: pmu_pending_def pmu_init_def)
  have v: "frame pmu_pending = 1" "frame_id_h (head ?p) = 0x1234"
    by (simp_all add: pmu_pending_def pmu_data_def pmu_head_fields)
  have l: "le16 0x1234 = [0x34, 0x12]" "le16 2 = [0x02, 0x00]"
    by (simp_all add: le16_def)
  from auto_ack_frame_id [OF c a n d f, of 1 "[]"] c a n d f show ?thesis
    by (simp add: Let_def v l PCAT_MAGIC_HEAD_def PCAT_ADDR_CPU_def PCAT_ADDR_PMU_def)
qed

subsection \<open>The reassembly buffer\<close>

lemma process_reply_keeps_buffer:
  "buffer (snd (pcat_process_reply e p s)) = buffer s"
  "length_b (snd (pcat_process_reply e p s)) = length_b s"
  by (simp_all add: pcat_process_reply_def Let_def split: option.splits)

lemma process_data_keeps_buffer:
  "buffer (snd (pcat_process_data e bs s)) = buffer s"
  "length_b (snd (pcat_process_data e bs s)) = length_b s"
  by (simp_all add: pcat_process_data_def Let_def case_prod_unfold raw_write_keeps
      blocking_notifier_call_chain_def process_reply_keeps_buffer split: sum.splits)

lemma size_t_sub_le:
  assumes "b \<le> a" and "a \<le> SIZE_MAX"
  shows "size_t_sub a b = a - b"
proof -
  have "a + (SIZE_MAX + 1) - b = (a - b) + (SIZE_MAX + 1)"
    using assms(1) by arith
  moreover have "a - b < SIZE_MAX + 1"
    using assms(2) by arith
  ultimately show ?thesis
    by (simp only: size_t_sub_def mod_add_self2 mod_less)
qed

lemma sizeof_buffer_le: "sizeof_buffer \<le> SIZE_MAX"
  by (simp add: sizeof_buffer_def SIZE_MAX_def)

lemma receive_buf_eq:
  assumes "buf \<noteq> []" and "buffer_ok s"
  shows "pcat_pmu_receive_buf e buf s =
          (min (length buf) (sizeof_buffer - length_b s),
           let bs = accumulated s buf;
               s1 = s\<lparr>buffer := bs @ drop (length bs) (buffer s), length_b := length bs\<rparr>;
               r = pcat_process_data e bs s1
           in if fst r \<noteq> - EAGAIN then (snd r)\<lparr>length_b := 0\<rparr> else snd r)"
proof (cases "length_b s + length buf > sizeof_buffer")
  case True
  let ?k = "sizeof_buffer - length_b s"
  have k: "size_t_sub sizeof_buffer (length_b s) = ?k"
    using assms(2) by (simp add: size_t_sub_le sizeof_buffer_le buffer_ok_def)
  have lk: "length (take ?k buf) = ?k" "min (length buf) ?k = ?k"
    using True by simp_all
  have la: "length (accumulated s buf) = sizeof_buffer"
    using assms(2) True by (simp add: accumulated_def buffer_ok_def)
  have m: "memcpy (buffer s) (length_b s) (take ?k buf)
             = accumulated s buf @ drop (length (accumulated s buf)) (buffer s)"
    using assms(2) by (simp add: memcpy_def accumulated_def lk buffer_ok_def)
  have t: "take sizeof_buffer (accumulated s buf @ drop (length (accumulated s buf)) (buffer s))
             = accumulated s buf"
    by (simp add: la)
  show ?thesis
    using True assms(1)
    by (simp add: pcat_pmu_receive_buf_def Let_def k m t la lk case_prod_unfold)
next
  case False
  let ?k = "sizeof_buffer - length_b s"
  have lk: "take ?k buf = buf" "min (length buf) ?k = length buf"
    using False by simp_all
  have la: "length (accumulated s buf) = length_b s + length buf"
    using assms(2) False by (simp add: accumulated_def buffer_ok_def)
  have m: "memcpy (buffer s) (length_b s) buf
             = accumulated s buf @ drop (length (accumulated s buf)) (buffer s)"
    using assms(2) by (simp add: memcpy_def accumulated_def lk buffer_ok_def)
  have t: "take (length_b s + length buf)
             (accumulated s buf @ drop (length (accumulated s buf)) (buffer s))
             = accumulated s buf"
    by (simp add: la)
  show ?thesis
    using False assms(1)
    by (simp add: pcat_pmu_receive_buf_def Let_def m t la lk case_prod_unfold)
qed

lemma process_data_ret:
  "fst (pcat_process_data e bs s)
     = (case pcat_process_data_check (crc_tbl e) bs of Inl r \<Rightarrow> r | Inr p \<Rightarrow> 0)"
  by (simp add: pcat_process_data_def Let_def case_prod_unfold split: sum.splits)

lemma length_accumulated:
  "buffer_ok s \<Longrightarrow> length (accumulated s buf) = min (length_b s + length buf) sizeof_buffer"
  by (auto simp add: accumulated_def buffer_ok_def)

lemma receive_buf_buffer:
  assumes "buf \<noteq> []" and "buffer_ok s"
  shows "buffer (snd (pcat_pmu_receive_buf e buf s))
           = accumulated s buf @ drop (length (accumulated s buf)) (buffer s)"
  by (simp add: receive_buf_eq [OF assms] Let_def process_data_keeps_buffer)

lemma receive_buf_length:
  assumes "buf \<noteq> []" and "buffer_ok s"
  shows "length_b (snd (pcat_pmu_receive_buf e buf s))
           = (if fst (pcat_process_data e (accumulated s buf) s) \<noteq> - EAGAIN then 0
              else length (accumulated s buf))"
  by (simp add: receive_buf_eq [OF assms] Let_def process_data_keeps_buffer process_data_ret)

lemma buffer_ok_init: "buffer_ok pmu_init"
  by (simp add: buffer_ok_def pmu_init_def sizeof_buffer_def)

lemma check_incomplete:
  assumes m: "magic_head h = PCAT_MAGIC_HEAD"
    and s: "source h = PCAT_ADDR_PMU"
    and d: "dest h = PCAT_ADDR_CPU \<or> dest h = PCAT_ADDR_CPU_ALL \<or> dest h = PCAT_ADDR_ALL"
    and l: "3 \<le> unat (length_h h)" "unat (length_h h) < 65531"
    and n: "length rest \<le> unat (length_h h)"
  shows "pcat_process_data_check tbl (head_bytes h @ rest) = Inl (- EAGAIN)"
  using m s d l n
  by (auto simp add: pcat_process_data_check_def Let_def head_of_head_bytes length_head_bytes
      sizeof_head_def sizeof_foot_def U16_MAX_def)

lemma length_long_report: "length long_report = 8191"
  by (simp add: long_report_def length_head_bytes)

lemma check_long_report:
  assumes "length rest \<le> 1"
  shows "pcat_process_data_check tbl (long_report @ rest) = Inl (- EAGAIN)"
proof -
  have "pcat_process_data_check tbl
          (head_bytes (pmu_head PCAT_ADDR_CPU 1 0x07 65527) @ (replicate 8182 0 @ rest))
          = Inl (- EAGAIN)"
    using assms
    by (intro check_incomplete) (simp_all add: pmu_head_fields unat_pmu_head_length)
  then show ?thesis
    by (simp add: long_report_def)
qed

lemma nearly_full_eq:
  "pmu_nearly_full = pmu_init\<lparr>buffer := long_report @ [0], length_b := 8191\<rparr>"
proof -
  have ne: "long_report \<noteq> []"
    using length_long_report by auto
  have a: "accumulated pmu_init long_report = long_report"
    by (simp add: accumulated_def pmu_init_def sizeof_buffer_def length_long_report)
  have c: "pcat_process_data_check (crc_tbl env0) long_report = Inl (- EAGAIN)"
    using check_long_report [of "[]"] by simp
  have d: "drop 8191 (buffer pmu_init) = [0]"
    by (simp add: pmu_init_def)
  show ?thesis
    unfolding pmu_nearly_full_def
    by (simp add: receive_buf_eq [OF ne buffer_ok_init] Let_def a process_data_inl [OF c]
        length_long_report d)
qed

lemma nearly_full_fields:
  "length_b pmu_nearly_full = 8191" "buffer pmu_nearly_full = long_report @ [0]"
  "buffer_ok pmu_nearly_full"
  by (simp_all add: nearly_full_eq buffer_ok_def sizeof_buffer_def length_long_report)

lemma accumulated_nearly_full:
  "accumulated pmu_nearly_full [1, 2] = long_report @ [1]"
  by (simp add: accumulated_def nearly_full_fields sizeof_buffer_def length_long_report)

lemma long_report_bytes:
  "take 9 long_report = [0xA5, 0x81, 0x01, 0x01, 0x00, 0xFA, 0xFF, 0x07, 0x00]"
  by (simp add: long_report_def head_bytes_def pmu_head_def raw_write_head_def le16_def
    PCAT_MAGIC_HEAD_def PCAT_ADDR_PMU_def PCAT_ADDR_CPU_def sizeof_foot_def)

text \<open>
  C6, amended. After any single feed of received bytes into a well-formed buffer, the
  stored length does not exceed the capacity of 8192 bytes. When appending the new
  bytes would overflow the capacity, the bytes already stored are kept and only the
  first \<open>8192 - length\<close> bytes of the chunk are appended and reported as consumed:
  the newest excess bytes are the ones left out.
\<close>

theorem receive_buf_bounded:
  assumes "buffer_ok s"
  shows "buffer_ok (snd (pcat_pmu_receive_buf e buf s))
       \<and> length_b (snd (pcat_pmu_receive_buf e buf s)) \<le> sizeof_buffer
       \<and> (buf \<noteq> [] \<longrightarrow>
            fst (pcat_pmu_receive_buf e buf s) = min (length buf) (sizeof_buffer - length_b s)
            \<and> length (accumulated s buf) = min (length_b s + length buf) sizeof_buffer
            \<and> take (length (accumulated s buf)) (buffer (snd (pcat_pmu_receive_buf e buf s)))
                = take (length_b s) (buffer s) @ take (sizeof_buffer - length_b s) buf)"
proof (cases "buf = []")
  case True
  then show ?thesis
    using assms by (simp add: pcat_pmu_receive_buf_def buffer_ok_def)
next
  case False
  have l: "length (accumulated s buf) = min (length_b s + length buf) sizeof_buffer"
    by (rule length_accumulated [OF assms])
  have b: "buffer (snd (pcat_pmu_receive_buf e buf s))
             = accumulated s buf @ drop (length (accumulated s buf)) (buffer s)"
    by (rule receive_buf_buffer [OF False assms])
  have lb: "length (buffer (snd (pcat_pmu_receive_buf e buf s))) = sizeof_buffer"
    unfolding b using assms l by (simp add: buffer_ok_def)
  have n: "length_b (snd (pcat_pmu_receive_buf e buf s)) \<le> sizeof_buffer"
    unfolding receive_buf_length [OF False assms] using l by simp
  have t: "take (length (accumulated s buf)) (buffer (snd (pcat_pmu_receive_buf e buf s)))
             = take (length_b s) (buffer s) @ take (sizeof_buffer - length_b s) buf"
    unfolding b by (simp add: accumulated_def [symmetric])
  have f: "fst (pcat_pmu_receive_buf e buf s) = min (length buf) (sizeof_buffer - length_b s)"
    by (simp add: receive_buf_eq [OF False assms])
  from lb n t f l False show ?thesis
    by (simp only: buffer_ok_def simp_thms)
qed

text \<open>The hypothesis of C6 holds once the first 8191 bytes of a long frame of the PMU
  have been received in the initial state, which leaves one free byte. Of the chunk
  \<open>01 02\<close> that follows, one byte is consumed, and it is the first of the chunk.\<close>

theorem receive_buf_bounded_witness:
  "buffer_ok pmu_nearly_full
   \<and> length_b pmu_nearly_full = 8191
   \<and> length_b (snd (pcat_pmu_receive_buf env0 [1, 2] pmu_nearly_full)) \<le> sizeof_buffer
   \<and> fst (pcat_pmu_receive_buf env0 [1, 2] pmu_nearly_full) = 1
   \<and> take 8192 (buffer (snd (pcat_pmu_receive_buf env0 [1, 2] pmu_nearly_full)))
       = long_report @ [1]"
proof -
  note t = receive_buf_bounded [OF nearly_full_fields(3), of env0 "[1, 2]"]
  have n: "length_b (snd (pcat_pmu_receive_buf env0 [1, 2] pmu_nearly_full)) \<le> sizeof_buffer"
    using t by blast
  have f: "fst (pcat_pmu_receive_buf env0 [1, 2] pmu_nearly_full)
             = min (length [1, 2 :: u8]) (sizeof_buffer - length_b pmu_nearly_full)"
    using t by blast
  have l: "length (accumulated pmu_nearly_full [1, 2])
             = min (length_b pmu_nearly_full + length [1, 2 :: u8]) sizeof_buffer"
    using t by blast
  have k: "take (length (accumulated pmu_nearly_full [1, 2]))
             (buffer (snd (pcat_pmu_receive_buf env0 [1, 2] pmu_nearly_full)))
           = take (length_b pmu_nearly_full) (buffer pmu_nearly_full)
               @ take (sizeof_buffer - length_b pmu_nearly_full) [1, 2]"
    using t by blast
  have f': "fst (pcat_pmu_receive_buf env0 [1, 2] pmu_nearly_full) = 1"
    unfolding f by (simp add: nearly_full_fields sizeof_buffer_def)
  have l': "length (accumulated pmu_nearly_full [1, 2]) = 8192"
    unfolding l by (simp add: nearly_full_fields sizeof_buffer_def)
  have k': "take 8192 (buffer (snd (pcat_pmu_receive_buf env0 [1, 2] pmu_nearly_full)))
              = long_report @ [1]"
    using k unfolding l'
    by (simp add: nearly_full_fields sizeof_buffer_def length_long_report)
  from nearly_full_fields(3) nearly_full_fields(1) n f' k' show ?thesis
    by (simp only: simp_thms)
qed

text \<open>C6 as stated fails: after the first 8191 bytes of a long frame of the PMU, received
  in the initial state, the chunk \<open>01 02\<close> overflows the buffer. The frame is still
  incomplete, so the buffer stays in use, now full: it holds the 8191 oldest bytes and
  the older byte 1 of the chunk; the newest byte 2 is not retained.\<close>

theorem receive_buf_drops_newest_counterexample:
  "length_b pmu_nearly_full = 8191
   \<and> take 8191 (buffer pmu_nearly_full) = long_report
   \<and> take 9 long_report = [0xA5, 0x81, 0x01, 0x01, 0x00, 0xFA, 0xFF, 0x07, 0x00]
   \<and> fst (pcat_pmu_receive_buf env0 [1, 2] pmu_nearly_full) = 1
   \<and> length_b (snd (pcat_pmu_receive_buf env0 [1, 2] pmu_nearly_full)) = 8192
   \<and> buffer (snd (pcat_pmu_receive_buf env0 [1, 2] pmu_nearly_full)) = long_report @ [1]"
proof -
  have ne: "[1, 2 :: u8] \<noteq> []"
    by simp
  note ok = nearly_full_fields(3)
  have t: "take 8191 (buffer pmu_nearly_full) = long_report"
    by (simp add: nearly_full_fields length_long_report)
  have "buffer (snd (pcat_pmu_receive_buf env0 [1, 2] pmu_nearly_full))
          = accumulated pmu_nearly_full [1, 2]
              @ drop (length (accumulated pmu_nearly_full [1, 2])) (buffer pmu_nearly_full)"
    by (rule receive_buf_buffer [OF ne ok])
  then have b: "buffer (snd (pcat_pmu_receive_buf env0 [1, 2] pmu_nearly_full))
                  = long_report @ [1]"
    unfolding accumulated_nearly_full by (simp add: nearly_full_fields length_long_report)
  have c: "pcat_process_data_check (crc_tbl env0) (long_report @ [1]) = Inl (- EAGAIN)"
    by (rule check_long_report) simp
  have "length_b (snd (pcat_pmu_receive_buf env0 [1, 2] pmu_nearly_full))
          = length (long_report @ [1 :: u8])"
    unfolding receive_buf_length [OF ne ok] accumulated_nearly_full
    by (simp add: process_data_inl [OF c])
  then have n: "length_b (snd (pcat_pmu_receive_buf env0 [1, 2] pmu_nearly_full)) = 8192"
    by (simp add: length_long_report)
  have "fst (pcat_pmu_receive_buf env0 [1, 2] pmu_nearly_full)
          = min (length [1, 2 :: u8]) (sizeof_buffer - length_b pmu_nearly_full)"
    by (simp only: receive_buf_eq [OF ne ok] fst_conv)
  then have f: "fst (pcat_pmu_receive_buf env0 [1, 2] pmu_nearly_full) = 1"
    by (simp add: nearly_full_fields sizeof_buffer_def)
  from nearly_full_fields(1) t long_report_bytes f n b show ?thesis
    by (simp only: simp_thms)
qed

text \<open>
  C7. After a feed of at least one byte into a well-formed buffer, the buffer is
  preserved, its length covering the appended bytes and its contents kept, exactly
  when the decode attempt returns \<open>-EAGAIN\<close>; in every other case the length is reset
  to 0.
\<close>

theorem receive_buf_preserve:
  assumes "buf \<noteq> []" and "buffer_ok s"
  shows "(let s' = snd (pcat_pmu_receive_buf e buf s);
              bs = accumulated s buf
          in (fst (pcat_process_data e bs s) = - EAGAIN \<longrightarrow>
                length_b s' = length bs \<and> take (length_b s') (buffer s') = bs)
             \<and> (fst (pcat_process_data e bs s) \<noteq> - EAGAIN \<longrightarrow> length_b s' = 0))"
  by (simp add: Let_def receive_buf_length [OF assms] receive_buf_buffer [OF assms])

text \<open>The hypotheses of C7 hold in the initial state: two bytes of a head are kept,
  nine zero bytes are discarded.\<close>

theorem receive_buf_preserve_witness:
  "buffer_ok pmu_init
   \<and> fst (pcat_process_data env0 (accumulated pmu_init [0xA5, 0x81]) pmu_init) = - EAGAIN
   \<and> length_b (snd (pcat_pmu_receive_buf env0 [0xA5, 0x81] pmu_init)) = 2
   \<and> take 2 (buffer (snd (pcat_pmu_receive_buf env0 [0xA5, 0x81] pmu_init))) = [0xA5, 0x81]
   \<and> fst (pcat_process_data env0 (accumulated pmu_init [0, 0, 0, 0, 0, 0, 0, 0, 0]) pmu_init)
       \<noteq> - EAGAIN
   \<and> length_b (snd (pcat_pmu_receive_buf env0 [0, 0, 0, 0, 0, 0, 0, 0, 0] pmu_init)) = 0"
proof -
  have a: "accumulated pmu_init buf = take sizeof_buffer buf" for buf
    by (simp add: accumulated_def pmu_init_def)
  have a1: "accumulated pmu_init [0xA5, 0x81] = [0xA5, 0x81]"
    by (simp add: a sizeof_buffer_def)
  have x: "fst (pcat_process_data env0 (accumulated pmu_init [0xA5, 0x81]) pmu_init) = - EAGAIN"
    by (simp add: process_data_ret a1 pcat_process_data_check_def sizeof_head_def)
  have y: "fst (pcat_process_data env0 (accumulated pmu_init [0, 0, 0, 0, 0, 0, 0, 0, 0]) pmu_init)
             \<noteq> - EAGAIN"
    by (simp add: process_data_ret a sizeof_buffer_def pcat_process_data_check_def sizeof_head_def
        head_of_def PCAT_MAGIC_HEAD_def EBADMSG_def EAGAIN_def)
  have n: "[0xA5, 0x81 :: u8] \<noteq> []" "[0, 0, 0, 0, 0, 0, 0, 0, 0 :: u8] \<noteq> []"
    by simp_all
  from receive_buf_preserve [OF n(1) buffer_ok_init, of env0] x
  have p: "length_b (snd (pcat_pmu_receive_buf env0 [0xA5, 0x81] pmu_init))
             = length (accumulated pmu_init [0xA5, 0x81])"
    "take (length_b (snd (pcat_pmu_receive_buf env0 [0xA5, 0x81] pmu_init)))
       (buffer (snd (pcat_pmu_receive_buf env0 [0xA5, 0x81] pmu_init)))
     = accumulated pmu_init [0xA5, 0x81]"
    unfolding Let_def by blast+
  have p1: "length_b (snd (pcat_pmu_receive_buf env0 [0xA5, 0x81] pmu_init)) = 2"
    unfolding p(1) a1 by simp
  have p2: "take 2 (buffer (snd (pcat_pmu_receive_buf env0 [0xA5, 0x81] pmu_init))) = [0xA5, 0x81]"
    using p(2) unfolding p1 a1 .
  from receive_buf_preserve [OF n(2) buffer_ok_init, of env0] y
  have q: "length_b (snd (pcat_pmu_receive_buf env0 [0, 0, 0, 0, 0, 0, 0, 0, 0] pmu_init)) = 0"
    by (simp only: Let_def simp_thms)
  from buffer_ok_init x p1 p2 y q show ?thesis
    by (simp only: simp_thms)
qed

lemma check_malformed:
  assumes "malformed tbl bs"
  shows "pcat_process_data_check tbl bs = Inl (- EBADMSG) \<or> pcat_process_data_check tbl bs = Inl 0"
  using assms
  by (auto simp add: malformed_def pcat_process_data_check_def Let_def)

lemma malformed_bad_crc:
  assumes m: "magic_head h = PCAT_MAGIC_HEAD"
    and l: "unat (length_h h) = length d + 3"
    and c: "crc16_f f \<noteq> crc16 tbl 0xFFFF (drop 1 (head_bytes h) @ d @ [need_ack f])"
  shows "malformed tbl (head_bytes h @ d @ foot_bytes f @ rest)"
proof -
  define bs where "bs = head_bytes h @ d @ foot_bytes f @ rest"
  have hd: "head_of bs = h"
    unfolding bs_def by (rule head_of_head_bytes)
  have ft: "foot_of (drop (length d + 9) bs) = f"
    unfolding bs_def by (simp add: length_head_bytes foot_of_foot_bytes)
  have cr: "take (9 + length d) (drop (Suc 0) bs) = drop 1 (head_bytes h) @ d @ [need_ack f]"
    unfolding bs_def by (simp add: length_head_bytes foot_bytes_def)
  have len: "length bs = length d + 13 + length rest"
    unfolding bs_def by (simp add: length_head_bytes length_foot_bytes)
  have "malformed tbl bs"
    unfolding malformed_def Let_def hd
    using m l c
    by (simp add: sizeof_head_def sizeof_foot_def U16_MAX_def ft cr len)
  then show ?thesis
    by (simp only: bs_def)
qed

text \<open>
  C8. Processing bytes that fail a structural check (bad head magic, length field out
  of range, bad end magic, checksum mismatch) returns \<open>-EBADMSG\<close>, or 0 where the
  addresses are foreign, and leaves the state as it was: the pending slot and the
  request it points to are untouched, no reply field is written and the completion is
  not signalled. A feed that accumulates such bytes changes the reassembly buffer only.
\<close>

theorem malformed_keeps_request:
  assumes "malformed (crc_tbl e) bs"
  shows "snd (pcat_process_data e bs s) = s
       \<and> (fst (pcat_process_data e bs s) = - EBADMSG \<or> fst (pcat_process_data e bs s) = 0)
       \<and> (\<forall>buf. buf \<noteq> [] \<and> buffer_ok s \<and> accumulated s buf = bs \<longrightarrow>
            (let s' = snd (pcat_pmu_receive_buf e buf s)
             in mem s' = mem s \<and> reply_p s' = reply_p s \<and> tx s' = tx s \<and> trace s' = trace s
                \<and> length_b s' = 0))"
proof -
  from check_malformed [OF assms]
  obtain r where r: "pcat_process_data_check (crc_tbl e) bs = Inl r" "r = - EBADMSG \<or> r = 0"
    by blast
  have a: "pcat_process_data e bs t = (r, t)" for t
    by (rule process_data_inl [OF r(1)])
  have ne: "r \<noteq> - EAGAIN"
    using r(2) by (auto simp add: EBADMSG_def EAGAIN_def)
  have "let s' = snd (pcat_pmu_receive_buf e buf s)
        in mem s' = mem s \<and> reply_p s' = reply_p s \<and> tx s' = tx s \<and> trace s' = trace s
           \<and> length_b s' = 0"
    if "buf \<noteq> []" "buffer_ok s" "accumulated s buf = bs" for buf
    using ne by (simp add: receive_buf_eq [OF that(1,2)] Let_def that(3) a)
  then show ?thesis
    using r(2) by (simp add: a)
qed

text \<open>The hypothesis of C8 holds for the reply to the pending watchdog request (frame id
  1, command \<open>0x14\<close>) whose stored checksum is off by one.\<close>

theorem malformed_keeps_request_witness:
  "malformed (crc_tbl env0)
     (head_bytes (pmu_head PCAT_ADDR_CPU 1 0x14 0) @ []
        @ foot_bytes ((raw_write_foot crc16_table (pmu_head PCAT_ADDR_CPU 1 0x14 0) False [])
                        \<lparr>crc16_f := crc16_f (raw_write_foot crc16_table
                                       (pmu_head PCAT_ADDR_CPU 1 0x14 0) False []) + 1\<rparr>) @ [])
   \<and> snd (pcat_process_data env0
       (head_bytes (pmu_head PCAT_ADDR_CPU 1 0x14 0) @ []
        @ foot_bytes ((raw_write_foot crc16_table (pmu_head PCAT_ADDR_CPU 1 0x14 0) False [])
                        \<lparr>crc16_f := crc16_f (raw_write_foot crc16_table
                                       (pmu_head PCAT_ADDR_CPU 1 0x14 0) False []) + 1\<rparr>) @ [])
       pmu_pending) = pmu_pending"
proof -
  let ?h = "pmu_head PCAT_ADDR_CPU 1 0x14 0"
  let ?f = "raw_write_foot crc16_table ?h False []"
  have m: "malformed (crc_tbl env0)
             (head_bytes ?h @ [] @ foot_bytes (?f\<lparr>crc16_f := crc16_f ?f + 1\<rparr>) @ [])"
    unfolding env0_def env.simps
    by (rule malformed_bad_crc)
      (simp_all add: pmu_head_fields unat_pmu_head_length raw_write_foot_eq)
  from malformed_keeps_request [OF m, of pmu_pending] m show ?thesis
    by blast
qed

subsection \<open>The request engine\<close>

declare pcat_pmu_execute_loop.simps [simp del]
























subsection \<open>Reading a string\<close>






































end
